theory Spec2Isabelle
  imports Complex_Main
begin

section \<open>JavaScript values\<close>

text \<open>
  The service in \<^verbatim>\<open>src/services/push-service.js\<close> builds notification payloads, hands
  them to the host notification service and mirrors them into a history kept under one
  key of the host key/value storage.

  A JavaScript number is a double. Every finite double denotes one rational, and the
  operations the service applies to numbers (truthiness, \<^verbatim>\<open>===\<close>, greater-than, \<^verbatim>\<open>toFixed\<close>)
  are defined by ECMAScript on that mathematical value, so a finite number is modelled
  by the rational it denotes; the three non-finite doubles are separate constructors.
  Negative zero is not distinguished from zero: both are falsy, and both are written
  \<^verbatim>\<open>0\<close> by \<^verbatim>\<open>JSON.stringify\<close>.
\<close>

datatype number = Finite rat | NaN | PosInfinity | NegInfinity

datatype jsval = JUndefined | JNull | JBool bool | JNum number | JStr string

text \<open>
  An object literal such as \<^verbatim>\<open>data\<close> is a finite mapping from property names to
  values. Reading a property that is absent yields \<^verbatim>\<open>undefined\<close>.
\<close>

type_synonym obj = "string \<Rightarrow> jsval option"

definition property :: "obj \<Rightarrow> string \<Rightarrow> jsval" where
  "property d k = (case d k of None \<Rightarrow> JUndefined | Some v \<Rightarrow> v)"

text \<open>ECMAScript \<^verbatim>\<open>ToBoolean\<close>, and the operator \<^verbatim>\<open>a || b\<close> built on it.\<close>

fun truthy :: "jsval \<Rightarrow> bool" where
  "truthy JUndefined = False"
| "truthy JNull = False"
| "truthy (JBool b) = b"
| "truthy (JNum (Finite r)) = (r \<noteq> 0)"
| "truthy (JNum NaN) = False"
| "truthy (JNum PosInfinity) = True"
| "truthy (JNum NegInfinity) = True"
| "truthy (JStr s) = (s \<noteq> [])"

definition js_or :: "jsval \<Rightarrow> jsval \<Rightarrow> jsval" where
  "js_or a b = (if truthy a then a else b)"

section \<open>Records of the service\<close>

text \<open>
  The three object shapes that carry \<^verbatim>\<open>title\<close>, \<^verbatim>\<open>body\<close> and \<^verbatim>\<open>data\<close>: the content
  given to the host notification service, the argument of
  \<^verbatim>\<open>saveNotificationToHistory\<close>, and the item it persists. The identifier field is
  \<^verbatim>\<open>id\<close> in the source; the persisted scheduled-time field is spelled
  \<^verbatim>\<open>shleduledAt\<close> there, and keeps that spelling here.
\<close>

record message =
  title :: string
  body :: string
  data :: obj

datatype androidPriority = HIGH

record notificationContent = message +
  sound :: bool
  priority :: androidPriority
  vibrate :: "nat list"
  badge :: nat

record notificationRequest =
  content :: notificationContent
  trigger :: "int option"

record identified = message +
  id' :: string

record notification = identified +
  scheduledAt :: "string option"

record notificationItem = identified +
  receivedAt :: string
  shleduledAt :: string

section \<open>The host\<close>

text \<open>
  Failures are values. \<open>NotificationError\<close> and \<open>StorageError\<close> are the opaque rejections
  of the two host services; \<open>SyntaxError\<close> is what \<^verbatim>\<open>JSON.parse\<close> throws and
  \<open>RangeError\<close> what \<^verbatim>\<open>toISOString\<close> throws on an invalid date.
\<close>

datatype error = NotificationError string | StorageError string | SyntaxError | RangeError

text \<open>
  The string kept under a storage key is represented by what \<^verbatim>\<open>JSON.parse\<close> makes of
  it: the empty string, a text on which parsing throws, or the text that
  \<^verbatim>\<open>JSON.stringify\<close> produced for a list of items. Parsing the latter gives the list
  back with each \<^verbatim>\<open>data\<close> object as JSON carries it: a property whose value is
  \<^verbatim>\<open>undefined\<close> is omitted and a non-finite number becomes \<^verbatim>\<open>null\<close>. The service
  writes nothing else under its key; a text that parses to something other than a list
  of items can only come from elsewhere and is not represented.
\<close>

datatype blob = EmptyText | Unparseable | Stringified "notificationItem list"

fun JSON_value :: "jsval \<Rightarrow> jsval option" where
  "JSON_value JUndefined = None"
| "JSON_value (JNum (Finite r)) = Some (JNum (Finite r))"
| "JSON_value (JNum x) = Some JNull"
| "JSON_value v = Some v"

definition JSON_object :: "obj \<Rightarrow> obj" where
  "JSON_object d = (\<lambda>k. case d k of None \<Rightarrow> None | Some v \<Rightarrow> JSON_value v)"

definition JSON_item :: "notificationItem \<Rightarrow> notificationItem" where
  "JSON_item x = x\<lparr>data := JSON_object (data x)\<rparr>"

definition JSON_stringify :: "notificationItem list \<Rightarrow> blob" where
  "JSON_stringify xs = Stringified xs"

fun JSON_parse :: "blob \<Rightarrow> error + notificationItem list" where
  "JSON_parse EmptyText = Inl SyntaxError"
| "JSON_parse Unparseable = Inl SyntaxError"
| "JSON_parse (Stringified xs) = Inr (map JSON_item xs)"

text \<open>
  What the host does during one call of the service: the reply of the notification
  service to a request, whether each storage call rejects, the two readings of the
  clock (milliseconds since the epoch; one by the dispatching function, one by the
  history store), and the two renderings that belong to the JavaScript engine:
  \<^verbatim>\<open>Date.prototype.toISOString\<close> for a valid time value, and the shortest decimal
  rendering \<^verbatim>\<open>Number::toString\<close> of a number, used only where the digits are not
  those of a safe integer.
\<close>

record host =
  scheduleNotificationAsync :: "notificationRequest \<Rightarrow> error + string"
  getItem_fault :: "error option"
  setItem_fault :: "error option"
  removeItem_fault :: "error option"
  Date_now :: int
  Date_now_store :: int
  toISOString :: "int \<Rightarrow> string"
  Number_toString :: "rat \<Rightarrow> string"

text \<open>
  The state the service acts on: the host storage, and the requests the host
  notification service has accepted, oldest first.
\<close>

record world =
  storage :: "string \<Rightarrow> blob option"
  requests :: "notificationRequest list"

definition getItem :: "host \<Rightarrow> string \<Rightarrow> world \<Rightarrow> error + blob option" where
  "getItem h k w = (case getItem_fault h of Some e \<Rightarrow> Inl e | None \<Rightarrow> Inr (storage w k))"

definition setItem :: "host \<Rightarrow> string \<Rightarrow> blob \<Rightarrow> world \<Rightarrow> error + world" where
  "setItem h k v w =
     (case setItem_fault h of Some e \<Rightarrow> Inl e | None \<Rightarrow> Inr (w\<lparr>storage := (storage w)(k \<mapsto> v)\<rparr>))"

definition removeItem :: "host \<Rightarrow> string \<Rightarrow> world \<Rightarrow> error + world" where
  "removeItem h k w =
     (case removeItem_fault h of Some e \<Rightarrow> Inl e | None \<Rightarrow> Inr (w\<lparr>storage := (storage w)(k := None)\<rparr>))"

definition submit :: "host \<Rightarrow> notificationRequest \<Rightarrow> world \<Rightarrow> error + string \<times> world" where
  "submit h r w =
     (case scheduleNotificationAsync h r of
        Inl e \<Rightarrow> Inl e
      | Inr notificationId \<Rightarrow> Inr (notificationId, w\<lparr>requests := requests w @ [r]\<rparr>))"

section \<open>History store\<close>

definition historyKey :: string where
  "historyKey = ''notification_history''"

text \<open>
  The expression \<^verbatim>\<open>existingHistory ? JSON.parse(existingHistory) : []\<close>, shared by the
  writer and the reader: \<^verbatim>\<open>null\<close> and the empty string are falsy.
\<close>

fun parse_or_empty :: "blob option \<Rightarrow> error + notificationItem list" where
  "parse_or_empty None = Inr []"
| "parse_or_empty (Some EmptyText) = Inr []"
| "parse_or_empty (Some b) = JSON_parse b"

text \<open>The object literal \<^verbatim>\<open>notificationItem\<close> of \<^verbatim>\<open>saveNotificationToHistory\<close>.\<close>

definition make_item :: "host \<Rightarrow> notification \<Rightarrow> notificationItem" where
  "make_item h n =
     \<lparr> title = title n,
       body = body n,
       data = (data n)
         (''title'' \<mapsto> property (data n) ''title'',
          ''body'' \<mapsto> property (data n) ''body'',
          ''price'' \<mapsto> property (data n) ''price'',
          ''quantity'' \<mapsto> property (data n) ''quantity''),
       id' = id' n,
       receivedAt = toISOString h (Date_now_store h),
       shleduledAt = (case scheduledAt n of None \<Rightarrow> [] | Some s \<Rightarrow> if s \<noteq> [] then s else []) \<rparr>"

text \<open>
  The same item as the object that is serialised: its own property names are those of
  the literal, one of them a nested object.
\<close>

datatype attribute = Text string | Object obj

definition item_object :: "notificationItem \<Rightarrow> string \<Rightarrow> attribute option" where
  "item_object x =
     [''id'' \<mapsto> Text (id' x),
      ''title'' \<mapsto> Text (title x),
      ''body'' \<mapsto> Text (body x),
      ''data'' \<mapsto> Object (data x),
      ''receivedAt'' \<mapsto> Text (receivedAt x),
      ''shleduledAt'' \<mapsto> Text (shleduledAt x)]"

text \<open>
  The body of the \<^verbatim>\<open>try\<close> block of \<^verbatim>\<open>saveNotificationToHistory\<close>: read, parse,
  \<^verbatim>\<open>unshift\<close>, \<^verbatim>\<open>slice(0, 50)\<close>, write. A failure leaves the world as it was, since the
  write is the last step.
\<close>

definition saveNotificationToHistory_try :: "host \<Rightarrow> notification \<Rightarrow> world \<Rightarrow> error + world" where
  "saveNotificationToHistory_try h n w =
     (case getItem h historyKey w of
        Inl e \<Rightarrow> Inl e
      | Inr existingHistory \<Rightarrow>
          (case parse_or_empty existingHistory of
             Inl e \<Rightarrow> Inl e
           | Inr history \<Rightarrow>
               (let notificationItem = make_item h n;
                    history' = notificationItem # history;
                    trimmedHistory = take 50 history'
                in setItem h historyKey (JSON_stringify trimmedHistory) w)))"

text \<open>
  The \<^verbatim>\<open>catch\<close> clause logs and returns: the promise resolves either way. The first
  component is the outcome the caller sees.
\<close>

definition saveNotificationToHistory :: "host \<Rightarrow> notification \<Rightarrow> world \<Rightarrow> (error + unit) \<times> world" where
  "saveNotificationToHistory h n w =
     (case saveNotificationToHistory_try h n w of
        Inl e \<Rightarrow> (Inr (), w)
      | Inr w' \<Rightarrow> (Inr (), w'))"

definition getNotificationHistory :: "host \<Rightarrow> world \<Rightarrow> error + notificationItem list" where
  "getNotificationHistory h w =
     (case getItem h historyKey w of
        Inl e \<Rightarrow> Inr []
      | Inr history \<Rightarrow>
          (case parse_or_empty history of
             Inl e \<Rightarrow> Inr []
           | Inr xs \<Rightarrow> Inr xs))"

definition clearNotificationHistory :: "host \<Rightarrow> world \<Rightarrow> (error + unit) \<times> world" where
  "clearNotificationHistory h w =
     (case removeItem h historyKey w of
        Inl e \<Rightarrow> (Inr (), w)
      | Inr w' \<Rightarrow> (Inr (), w'))"

section \<open>Rendering numbers\<close>

definition digit_char :: "nat \<Rightarrow> char" where
  "digit_char n = ''0123456789'' ! n"

fun digits :: "nat \<Rightarrow> string" where
  "digits n = (if n < 10 then [digit_char n] else digits (n div 10) @ [digit_char (n mod 10)])"

declare digits.simps [simp del]

text \<open>
  \<^verbatim>\<open>Number.prototype.toFixed(f)\<close> as ECMAScript defines it: a non-finite number is
  rendered by name; otherwise the sign is split off, a magnitude of at least \<open>10^21\<close> is
  left to \<^verbatim>\<open>Number::toString\<close>, and a smaller one is rendered from the integer \<open>n\<close>
  nearest to \<open>x * 10^f\<close> (the larger of two equally near), left-padded with zeros to
  \<open>f + 1\<close> digits, with a point before the last \<open>f\<close> digits.
\<close>

definition toFixed :: "host \<Rightarrow> nat \<Rightarrow> number \<Rightarrow> string" where
  "toFixed h f x =
     (case x of
        NaN \<Rightarrow> ''NaN''
      | PosInfinity \<Rightarrow> ''Infinity''
      | NegInfinity \<Rightarrow> ''-Infinity''
      | Finite r \<Rightarrow>
          (let s = (if r < 0 then ''-'' else []);
               a = \<bar>r\<bar>
           in if a \<ge> 10 ^ 21 then s @ Number_toString h a
              else
                (let n = nat \<lfloor>a * 10 ^ f + 1 / 2\<rfloor>;
                     m = digits n;
                     m = (if length m \<le> f then replicate (f + 1 - length m) (CHR ''0'') @ m else m);
                     k = length m
                 in if f = 0 then s @ m
                    else s @ take (k - f) m @ ''.'' @ drop (k - f) m)))"

text \<open>
  \<^verbatim>\<open>ToString\<close> of a number, as a template literal applies it. A safe integer is
  rendered by its decimal digits; every other finite number by the engine's shortest
  round-trip rendering.
\<close>

definition ToString :: "host \<Rightarrow> number \<Rightarrow> string" where
  "ToString h x =
     (case x of
        NaN \<Rightarrow> ''NaN''
      | PosInfinity \<Rightarrow> ''Infinity''
      | NegInfinity \<Rightarrow> ''-Infinity''
      | Finite r \<Rightarrow>
          (if r = of_int \<lfloor>r\<rfloor> \<and> \<bar>r\<bar> < 2 ^ 53
           then (if r < 0 then ''-'' else []) @ digits (nat \<bar>\<lfloor>r\<rfloor>\<bar>)
           else Number_toString h r))"

text \<open>The comparison \<^verbatim>\<open>x > 1\<close> on numbers: false for \<^verbatim>\<open>NaN\<close>.\<close>

fun greater_than :: "number \<Rightarrow> rat \<Rightarrow> bool" where
  "greater_than (Finite r) c = (r > c)"
| "greater_than PosInfinity c = True"
| "greater_than NaN c = False"
| "greater_than NegInfinity c = False"

section \<open>Dispatcher\<close>

text \<open>
  \<^verbatim>\<open>new Date(t).toISOString()\<close>: the constructor clips a time value beyond
  \<open>8.64 * 10^15\<close> milliseconds to an invalid date, on which \<^verbatim>\<open>toISOString\<close> throws.
\<close>

definition Date_toISOString :: "host \<Rightarrow> int \<Rightarrow> error + string" where
  "Date_toISOString h t =
     (if \<bar>t\<bar> \<le> 8640000000000000 then Inr (toISOString h t) else Inl RangeError)"

text \<open>
  \<^verbatim>\<open>sendLocalNotification({ title, body, data = {} })\<close>. The destructured parameters are
  the arguments; \<open>None\<close> for \<open>data\<close> is the omitted property, which defaults to the empty
  object (\<open>data_or_empty\<close>); \<open>title\<close> and \<open>body\<close> are strings, as documented. The same
  \<^verbatim>\<open>data\<close> object literal is built for the request and for the history. A rejection
  of the host is caught, logged and thrown again; what is written to the console is not
  part of the state.
\<close>

definition local_data :: "string \<Rightarrow> string \<Rightarrow> obj \<Rightarrow> obj" where
  "local_data ttl bdy d =
     d(''title'' \<mapsto> JStr ttl,
       ''body'' \<mapsto> JStr bdy,
       ''price'' \<mapsto> js_or (property d ''price'') (JNum (Finite 0)),
       ''quantity'' \<mapsto> js_or (property d ''quantity'') (JNum (Finite 0)))"

definition data_or_empty :: "obj option \<Rightarrow> obj" where
  "data_or_empty dat = (case dat of None \<Rightarrow> Map.empty | Some d \<Rightarrow> d)"

definition local_request :: "string \<Rightarrow> string \<Rightarrow> obj \<Rightarrow> notificationRequest" where
  "local_request ttl bdy d =
     \<lparr> content = \<lparr> title = ttl, body = bdy, data = local_data ttl bdy d,
                     sound = True, priority = HIGH, vibrate = [0, 250, 250, 250], badge = 1 \<rparr>,
       trigger = None \<rparr>"

definition local_notification :: "string \<Rightarrow> string \<Rightarrow> obj \<Rightarrow> string \<Rightarrow> notification" where
  "local_notification ttl bdy d notificationId =
     \<lparr> title = ttl, body = bdy, data = local_data ttl bdy d,
       id' = notificationId, scheduledAt = None \<rparr>"

definition sendLocalNotification ::
  "host \<Rightarrow> string \<Rightarrow> string \<Rightarrow> obj option \<Rightarrow> world \<Rightarrow> (error + string) \<times> world" where
  "sendLocalNotification h ttl bdy dat w =
     (let d = data_or_empty dat
      in case submit h (local_request ttl bdy d) w of
           Inl e \<Rightarrow> (Inl e, w)
         | Inr (notificationId, w1) \<Rightarrow>
             (let w2 = snd (saveNotificationToHistory h (local_notification ttl bdy d notificationId) w1)
              in (Inr notificationId, w2)))"

text \<open>
  \<^verbatim>\<open>scheduleNotification({ title, body, data = {}, seconds = 60 })\<close>. The delay is a
  whole number of seconds, so that \<^verbatim>\<open>Date.now() + seconds * 1000\<close> is exact. The
  \<^verbatim>\<open>data\<close> literal is built afresh from four properties. The trigger of a request is
  \<open>None\<close> for \<^verbatim>\<open>null\<close> and \<open>Some seconds\<close> for \<^verbatim>\<open>{ seconds }\<close>.
\<close>

definition scheduled_data :: "string \<Rightarrow> string \<Rightarrow> obj \<Rightarrow> obj" where
  "scheduled_data ttl bdy d =
     [''title'' \<mapsto> JStr ttl,
      ''body'' \<mapsto> JStr bdy,
      ''price'' \<mapsto> js_or (property d ''price'') (JNum (Finite 0)),
      ''quantity'' \<mapsto> js_or (property d ''quantity'') (JNum (Finite 0))]"

definition seconds_or_60 :: "int option \<Rightarrow> int" where
  "seconds_or_60 secs = (case secs of None \<Rightarrow> 60 | Some s \<Rightarrow> s)"

definition scheduled_request :: "string \<Rightarrow> string \<Rightarrow> obj \<Rightarrow> int \<Rightarrow> notificationRequest" where
  "scheduled_request ttl bdy d seconds =
     \<lparr> content = \<lparr> title = ttl, body = bdy, data = scheduled_data ttl bdy d,
                     sound = True, priority = HIGH, vibrate = [0, 250, 250, 250], badge = 1 \<rparr>,
       trigger = Some seconds \<rparr>"

definition scheduled_notification ::
  "string \<Rightarrow> string \<Rightarrow> obj \<Rightarrow> string \<Rightarrow> string \<Rightarrow> notification" where
  "scheduled_notification ttl bdy d notificationId stamp =
     \<lparr> title = ttl, body = bdy, data = scheduled_data ttl bdy d,
       id' = notificationId, scheduledAt = Some stamp \<rparr>"

definition scheduleNotification ::
  "host \<Rightarrow> string \<Rightarrow> string \<Rightarrow> obj option \<Rightarrow> int option \<Rightarrow> world \<Rightarrow> (error + string) \<times> world" where
  "scheduleNotification h ttl bdy dat secs w =
     (let d = data_or_empty dat;
          seconds = seconds_or_60 secs
      in case Date_toISOString h (Date_now h + seconds * 1000) of
           Inl e \<Rightarrow> (Inl e, w)
         | Inr stamp \<Rightarrow>
             (case submit h (scheduled_request ttl bdy d seconds) w of
                Inl e \<Rightarrow> (Inl e, w)
              | Inr (notificationId, w1) \<Rightarrow>
                  (let w2 = snd (saveNotificationToHistory h
                                   (scheduled_notification ttl bdy d notificationId stamp) w1)
                   in (Inr notificationId, w2))))"

subsection \<open>Event notifications\<close>

text \<open>
  The titles begin with a character outside ASCII; each is written as the bytes of its
  UTF-8 encoding in the source file.
\<close>

definition title_booking :: string where
  "title_booking = [CHR 0xF0, CHR 0x9F, CHR 0x8E, CHR 0x89] @ '' Booking Confirmed!''"

definition title_payment :: string where
  "title_payment = [CHR 0xF0, CHR 0x9F, CHR 0x92, CHR 0xB3] @ '' Payment Successful''"

definition title_order :: string where
  "title_order = [CHR 0xE2, CHR 0x98, CHR 0x95] @ '' Order Confirmed!''"

definition title_ready :: string where
  "title_ready = [CHR 0xE2, CHR 0x9C, CHR 0x85] @ '' Your Order is Ready!''"

definition title_offer :: string where
  "title_offer = [CHR 0xF0, CHR 0x9F, CHR 0x8E, CHR 0x89] @ '' Special Offer!''"

record paymentDetails =
  amount :: number
  cardNumber :: string
  paymentId :: string

record orderDetails =
  coffeeName :: string
  quantity :: number
  totalPrice :: number
  orderId :: string

definition sendBookingConfirmationNotification ::
  "host \<Rightarrow> string \<Rightarrow> world \<Rightarrow> (error + string) \<times> world" where
  "sendBookingConfirmationNotification h ttl w =
     (let notificationTitle = title_booking;
          bdy = ''Your '' @ ttl @ '' are wait you'';
          dat = [''type'' \<mapsto> JStr ''booking_confirmed'', ''title'' \<mapsto> JStr ttl]
      in sendLocalNotification h notificationTitle bdy (Some dat) w)"

definition payment_body :: "host \<Rightarrow> paymentDetails \<Rightarrow> string" where
  "payment_body h p =
     ''Your payment of $'' @ toFixed h 2 (amount p) @ '' has been processed successfully!''"

definition sendPaymentConfirmationNotification ::
  "host \<Rightarrow> paymentDetails \<Rightarrow> world \<Rightarrow> (error + string) \<times> world" where
  "sendPaymentConfirmationNotification h p w =
     (let ttl = title_payment;
          bdy = payment_body h p;
          dat = [''title'' \<mapsto> JStr ttl,
                 ''body'' \<mapsto> JStr bdy,
                 ''price'' \<mapsto> JNum (amount p),
                 ''quantity'' \<mapsto> JNum (Finite 1),
                 ''type'' \<mapsto> JStr ''payment_confirmed'',
                 ''paymentId'' \<mapsto> JStr (paymentId p),
                 ''cardNumber'' \<mapsto> JStr (cardNumber p),
                 ''timestamp'' \<mapsto> JStr (toISOString h (Date_now h))]
      in sendLocalNotification h ttl bdy (Some dat) w)"

definition order_confirmation_body :: "host \<Rightarrow> orderDetails \<Rightarrow> string" where
  "order_confirmation_body h od =
     ''Your order of '' @ ToString h (quantity od) @ '' '' @ coffeeName od @ '' ''
       @ (if quantity od = Finite 1 then ''is'' else ''are'')
       @ '' confirmed. Total: $'' @ toFixed h 2 (totalPrice od)"

definition sendOrderConfirmationNotification ::
  "host \<Rightarrow> orderDetails \<Rightarrow> world \<Rightarrow> (error + string) \<times> world" where
  "sendOrderConfirmationNotification h od w =
     (let ttl = title_order;
          bdy = order_confirmation_body h od;
          dat = [''title'' \<mapsto> JStr ttl,
                 ''body'' \<mapsto> JStr bdy,
                 ''price'' \<mapsto> JNum (totalPrice od),
                 ''quantity'' \<mapsto> JNum (quantity od),
                 ''type'' \<mapsto> JStr ''order_confirmed'',
                 ''orderId'' \<mapsto> JStr (orderId od),
                 ''coffeeName'' \<mapsto> JStr (coffeeName od),
                 ''timestamp'' \<mapsto> JStr (toISOString h (Date_now h))]
      in sendLocalNotification h ttl bdy (Some dat) w)"

definition order_ready_body :: "host \<Rightarrow> orderDetails \<Rightarrow> string" where
  "order_ready_body h od =
     ''Your '' @ coffeeName od @ '' ''
       @ (if greater_than (quantity od) 1 then ''('' @ ToString h (quantity od) @ ''x)'' else [])
       @ '' is ready for pickup!''"

definition sendOrderReadyNotification ::
  "host \<Rightarrow> orderDetails \<Rightarrow> world \<Rightarrow> (error + string) \<times> world" where
  "sendOrderReadyNotification h od w =
     (let ttl = title_ready;
          bdy = order_ready_body h od;
          dat = [''title'' \<mapsto> JStr ttl,
                 ''body'' \<mapsto> JStr bdy,
                 ''price'' \<mapsto> JNum (totalPrice od),
                 ''quantity'' \<mapsto> JNum (quantity od),
                 ''type'' \<mapsto> JStr ''order_ready'',
                 ''orderId'' \<mapsto> JStr (orderId od),
                 ''coffeeName'' \<mapsto> JStr (coffeeName od)]
      in sendLocalNotification h ttl bdy (Some dat) w)"

definition sendSpecialOfferNotification ::
  "host \<Rightarrow> string \<Rightarrow> string \<Rightarrow> number \<Rightarrow> number \<Rightarrow> world \<Rightarrow> (error + string) \<times> world" where
  "sendSpecialOfferNotification h offerTitle coffee discountPrice originalPrice w =
     (let ttl = title_offer;
          bdy = offerTitle @ '': Get '' @ coffee @ '' for $'' @ toFixed h 2 discountPrice
                  @ '' (was $'' @ toFixed h 2 originalPrice @ '')'';
          dat = [''title'' \<mapsto> JStr ttl,
                 ''body'' \<mapsto> JStr bdy,
                 ''price'' \<mapsto> JNum discountPrice,
                 ''quantity'' \<mapsto> JNum (Finite 1),
                 ''type'' \<mapsto> JStr ''special_offer'',
                 ''coffeeName'' \<mapsto> JStr coffee,
                 ''originalPrice'' \<mapsto> JNum originalPrice]
      in sendLocalNotification h ttl bdy (Some dat) w)"

section \<open>Sequences of calls and sample inputs\<close>

text \<open>
  Appending one record after another, each call with the host as it behaves during that
  call (every call runs to its end before the next begins); the list a working read
  returns; and the persisted form of the item a call builds.
\<close>

fun save_all :: "(host \<times> notification) list \<Rightarrow> world \<Rightarrow> world" where
  "save_all [] w = w"
| "save_all (c # cs) w = save_all cs (snd (saveNotificationToHistory (fst c) (snd c) w))"

definition persisted :: "world \<Rightarrow> notificationItem list" where
  "persisted w = (case parse_or_empty (storage w historyKey) of Inl e \<Rightarrow> [] | Inr xs \<Rightarrow> xs)"

definition stored_item :: "host \<times> notification \<Rightarrow> notificationItem" where
  "stored_item c = JSON_item (make_item (fst c) (snd c))"

text \<open>
  Sample hosts and worlds: a host on which every call succeeds, one on which every call
  is rejected, the world before anything was stored, and one whose history text does
  not parse.
\<close>

definition host_ok :: host where
  "host_ok =
     \<lparr> scheduleNotificationAsync = (\<lambda>r. Inr ''notification-1''),
       getItem_fault = None, setItem_fault = None, removeItem_fault = None,
       Date_now = 1700000000000, Date_now_store = 1700000000250,
       toISOString = (\<lambda>t. if t = 1700000000000 then ''2023-11-14T22:13:20.000Z''
                          else if t = 1700000030000 then ''2023-11-14T22:13:50.000Z''
                          else ''2023-11-14T22:13:20.250Z''),
       Number_toString = (\<lambda>r. ''1e+21'') \<rparr>"

definition host_down :: host where
  "host_down =
     host_ok \<lparr> scheduleNotificationAsync := (\<lambda>r. Inl (NotificationError ''permission denied'')),
               getItem_fault := Some (StorageError ''read failed''),
               setItem_fault := Some (StorageError ''disk full''),
               removeItem_fault := Some (StorageError ''remove failed'') \<rparr>"

definition world_empty :: world where
  "world_empty = \<lparr> storage = Map.empty, requests = [] \<rparr>"

definition world_corrupt :: world where
  "world_corrupt = \<lparr> storage = [historyKey \<mapsto> Unparseable], requests = [] \<rparr>"

definition sample :: "nat \<Rightarrow> notification" where
  "sample i =
     \<lparr> title = ''T'', body = ''B'',
       data = [''title'' \<mapsto> JStr ''T'', ''body'' \<mapsto> JStr ''B'',
               ''price'' \<mapsto> JNum (Finite 3), ''quantity'' \<mapsto> JNum (Finite 1)],
       id' = digits i, scheduledAt = None \<rparr>"

definition calls51 :: "(host \<times> notification) list" where
  "calls51 = map (\<lambda>i. (host_ok, sample i)) [0..<51]"

definition host_storage_down :: host where
  "host_storage_down =
     host_ok \<lparr> getItem_fault := Some (StorageError ''read failed''),
               setItem_fault := Some (StorageError ''disk full'') \<rparr>"

definition order_latte :: orderDetails where
  "order_latte = \<lparr> coffeeName = ''Latte'', quantity = Finite 1, totalPrice = Finite (9 / 2), orderId = ''o1'' \<rparr>"

definition sample_data :: obj where
  "sample_data = [''type'' \<mapsto> JStr ''promo'', ''orderId'' \<mapsto> JStr ''o7'', ''price'' \<mapsto> JNum (Finite 3)]"

definition order_two :: orderDetails where
  "order_two = \<lparr> coffeeName = ''Latte'', quantity = Finite 2, totalPrice = Finite (25 / 2), orderId = ''o2'' \<rparr>"

definition host_minute :: host where
  "host_minute =
     host_ok \<lparr> toISOString := (\<lambda>t. if t = 1700000060000 then ''2023-11-14T22:14:20.000Z''
                                   else toISOString host_ok t) \<rparr>"

definition sample_payment :: paymentDetails where
  "sample_payment = \<lparr> amount = Finite (25 / 2), cardNumber = ''4242'', paymentId = ''p1'' \<rparr>"

section \<open>Properties of the history store\<close>

lemma JSON_value_idem: "JSON_value v = Some u \<Longrightarrow> JSON_value u = Some u"
  by (cases v rule: JSON_value.cases) auto

lemma JSON_object_idem [simp]: "JSON_object (JSON_object d) = JSON_object d"
  by (auto simp: JSON_object_def fun_eq_iff JSON_value_idem split: option.splits)

lemma JSON_item_idem [simp]: "JSON_item (JSON_item x) = JSON_item x"
  by (simp add: JSON_item_def)

lemma parse_or_empty_normal: "parse_or_empty b = Inr xs \<Longrightarrow> map JSON_item xs = xs"
  by (cases b rule: parse_or_empty.cases) auto

lemma parse_or_empty_fails: "parse_or_empty b = Inl e \<Longrightarrow> b = Some Unparseable"
  by (cases b rule: parse_or_empty.cases) auto

lemma read_persisted:
  "getItem_fault r = None \<Longrightarrow> getNotificationHistory r w = Inr (persisted w)"
  by (simp add: getNotificationHistory_def getItem_def persisted_def split: sum.splits)

lemma persisted_normal [simp]: "map JSON_item (persisted w) = persisted w"
  by (auto simp: persisted_def parse_or_empty_normal split: sum.splits)

lemma persisted_unparseable: "storage w historyKey = Some Unparseable \<Longrightarrow> persisted w = []"
  by (simp add: persisted_def)

lemma persisted_write [simp]:
  "persisted (w\<lparr>storage := (storage w)(historyKey \<mapsto> Stringified xs)\<rparr>) = map JSON_item xs"
  by (simp add: persisted_def)

lemma save_performed:
  assumes "getItem_fault h = None" "setItem_fault h = None" "storage w historyKey \<noteq> Some Unparseable"
  shows "saveNotificationToHistory_try h n w =
           Inr (w\<lparr>storage := (storage w)(historyKey \<mapsto> Stringified (take 50 (make_item h n # persisted w)))\<rparr>)"
  using assms
  by (auto simp: saveNotificationToHistory_try_def getItem_def setItem_def persisted_def Let_def
        JSON_stringify_def split: sum.splits dest: parse_or_empty_fails)

lemma save_skipped:
  assumes "getItem_fault h \<noteq> None \<or> storage w historyKey = Some Unparseable \<or> setItem_fault h \<noteq> None"
  shows "\<exists>e. saveNotificationToHistory_try h n w = Inl e"
  using assms
  by (auto simp: saveNotificationToHistory_try_def getItem_def setItem_def Let_def
        split: sum.splits option.splits)

lemma save_world:
  "snd (saveNotificationToHistory h n w) =
     (case saveNotificationToHistory_try h n w of Inl e \<Rightarrow> w | Inr w' \<Rightarrow> w')"
  by (simp add: saveNotificationToHistory_def split: sum.splits)

lemma persisted_after_save:
  assumes "getItem_fault h = None" "setItem_fault h = None" "storage w historyKey \<noteq> Some Unparseable"
  shows "persisted (snd (saveNotificationToHistory h n w)) = take 50 (JSON_item (make_item h n) # persisted w)"
proof -
  have "map JSON_item (take 50 (make_item h n # persisted w))
          = take 50 (map JSON_item (make_item h n # persisted w))"
    by (rule take_map [symmetric])
  then show ?thesis
    by (simp add: save_world save_performed [OF assms] del: take_Cons_numeral)
qed

lemma storage_after_save:
  assumes "storage w historyKey \<noteq> Some Unparseable"
  shows "storage (snd (saveNotificationToHistory h n w)) historyKey \<noteq> Some Unparseable"
proof (cases "saveNotificationToHistory_try h n w")
  case (Inl e)
  then show ?thesis using assms by (simp add: save_world)
next
  case (Inr w')
  then show ?thesis
    by (auto simp: save_world saveNotificationToHistory_try_def getItem_def setItem_def Let_def
          JSON_stringify_def split: sum.splits option.splits)
qed

lemma persisted_bounded:
  "length (persisted w) \<le> 50 \<Longrightarrow> length (persisted (snd (saveNotificationToHistory h n w))) \<le> 50"
proof (cases "saveNotificationToHistory_try h n w")
  case (Inl e)
  assume "length (persisted w) \<le> 50"
  with Inl show ?thesis by (simp add: save_world)
next
  case (Inr w')
  then show ?thesis
    by (auto simp: save_world saveNotificationToHistory_try_def getItem_def setItem_def Let_def
          JSON_stringify_def split: sum.splits option.splits)
qed

lemma take_append_take: "take n (xs @ take n ys) = take n (xs @ ys)"
  by simp

lemma persisted_save_all:
  assumes "\<forall>c\<in>set calls. getItem_fault (fst c) = None \<and> setItem_fault (fst c) = None"
    and "storage w historyKey \<noteq> Some Unparseable"
    and "length (persisted w) \<le> 50"
  shows "persisted (save_all calls w) = take 50 (rev (map stored_item calls) @ persisted w)"
  using assms
proof (induction calls arbitrary: w)
  case Nil
  then show ?case by simp
next
  case (Cons c cs)
  let ?w1 = "snd (saveNotificationToHistory (fst c) (snd c) w)"
  have ok: "getItem_fault (fst c) = None" "setItem_fault (fst c) = None"
    using Cons.prems(1) by simp_all
  have p1: "persisted ?w1 = take 50 (stored_item c # persisted w)"
    using persisted_after_save [OF ok Cons.prems(2)] by (simp add: stored_item_def)
  have "persisted (save_all cs ?w1) = take 50 (rev (map stored_item cs) @ persisted ?w1)"
    using Cons.IH [of ?w1] Cons.prems storage_after_save persisted_bounded by simp
  also have "\<dots> = take 50 (rev (map stored_item cs) @ stored_item c # persisted w)"
    unfolding p1 by (rule take_append_take)
  finally show ?case by simp
qed

lemma fifty_one:
  assumes "length (xs :: 'a list) = 51"
  shows "length (take 50 (rev xs)) = 50 \<and> last (take 50 (rev xs)) = xs ! 1"
proof -
  have "take 50 (rev xs) = rev (drop 1 xs)"
    using assms by (simp add: take_rev)
  moreover have "drop 1 xs \<noteq> []" using assms by simp
  ultimately show ?thesis
    using assms by (simp add: last_rev hd_drop_conv_nth)
qed


lemma save_performed_iff:
  "(\<exists>w'. saveNotificationToHistory_try h n w = Inr w')
     = (getItem_fault h = None \<and> setItem_fault h = None \<and> storage w historyKey \<noteq> Some Unparseable)"
proof
  assume "\<exists>w'. saveNotificationToHistory_try h n w = Inr w'"
  then show "getItem_fault h = None \<and> setItem_fault h = None \<and> storage w historyKey \<noteq> Some Unparseable"
    using save_skipped [of h w n] by fastforce
next
  assume "getItem_fault h = None \<and> setItem_fault h = None \<and> storage w historyKey \<noteq> Some Unparseable"
  then show "\<exists>w'. saveNotificationToHistory_try h n w = Inr w'"
    using save_performed [of h w n] by simp
qed

lemma calls51_second: "calls51 ! 1 = (host_ok, sample 1)"
  by (simp add: calls51_def)

section \<open>Properties of the dispatcher\<close>

lemma send_unfold:
  "sendLocalNotification h t b dat w =
     (case scheduleNotificationAsync h (local_request t b (data_or_empty dat)) of
        Inl e \<Rightarrow> (Inl e, w)
      | Inr nid \<Rightarrow>
          (Inr nid, snd (saveNotificationToHistory h (local_notification t b (data_or_empty dat) nid)
                           (w\<lparr>requests := requests w @ [local_request t b (data_or_empty dat)]\<rparr>))))"
  by (simp add: sendLocalNotification_def submit_def data_or_empty_def local_notification_def
        Let_def split: sum.splits)

lemma schedule_unfold:
  "scheduleNotification h t b dat secs w =
     (if \<bar>Date_now h + seconds_or_60 secs * 1000\<bar> \<le> 8640000000000000 then
        (case scheduleNotificationAsync h (scheduled_request t b (data_or_empty dat) (seconds_or_60 secs)) of
           Inl e \<Rightarrow> (Inl e, w)
         | Inr nid \<Rightarrow>
             (Inr nid,
              snd (saveNotificationToHistory h
                     (scheduled_notification t b (data_or_empty dat) nid
                        (toISOString h (Date_now h + seconds_or_60 secs * 1000)))
                     (w\<lparr>requests := requests w
                          @ [scheduled_request t b (data_or_empty dat) (seconds_or_60 secs)]\<rparr>))))
      else (Inl RangeError, w))"
  by (simp add: scheduleNotification_def submit_def data_or_empty_def seconds_or_60_def
        scheduled_notification_def Date_toISOString_def Let_def split: sum.splits)

lemma send_reply:
  "fst (sendLocalNotification h t b dat w)
     = scheduleNotificationAsync h (local_request t b (data_or_empty dat))"
  by (simp add: send_unfold split: sum.splits)

lemma send_failed: "fst (sendLocalNotification h t b dat w) = Inl e \<Longrightarrow> snd (sendLocalNotification h t b dat w) = w"
  by (simp add: send_unfold split: sum.splits)

lemma schedule_reply:
  "\<bar>Date_now h + seconds_or_60 secs * 1000\<bar> \<le> 8640000000000000 \<Longrightarrow>
   fst (scheduleNotification h t b dat secs w)
     = scheduleNotificationAsync h (scheduled_request t b (data_or_empty dat) (seconds_or_60 secs))"
  by (simp add: schedule_unfold split: sum.splits)

lemma schedule_failed:
  "fst (scheduleNotification h t b dat secs w) = Inl e \<Longrightarrow> snd (scheduleNotification h t b dat secs w) = w"
  by (simp add: schedule_unfold split: sum.splits if_splits)

lemma send_rejected:
  "\<forall>r. scheduleNotificationAsync h r = Inl e \<Longrightarrow> sendLocalNotification h t b dat w = (Inl e, w)"
  by (simp add: send_unfold)

lemma send_accepted:
  "\<forall>r. scheduleNotificationAsync h r = Inr nid \<Longrightarrow> fst (sendLocalNotification h t b dat w) = Inr nid"
  by (simp add: send_unfold)

lemma persisted_requests [simp]: "persisted (w\<lparr>requests := rs\<rparr>) = persisted w"
  by (simp add: persisted_def)

lemma requests_after_save [simp]: "requests (snd (saveNotificationToHistory h n w)) = requests w"
  by (auto simp: save_world saveNotificationToHistory_try_def getItem_def setItem_def Let_def
        split: sum.splits option.splits)

lemma storage_unchanged_save:
  "getItem_fault h \<noteq> None \<or> storage w historyKey = Some Unparseable \<or> setItem_fault h \<noteq> None
   \<Longrightarrow> storage (snd (saveNotificationToHistory h n w)) = storage w"
  using save_skipped [of h w n] by (auto simp: save_world)

lemma send_persisted:
  assumes "fst (sendLocalNotification h t b dat w) = Inr nid"
    and "getItem_fault h = None" "setItem_fault h = None" "storage w historyKey \<noteq> Some Unparseable"
  shows "persisted (snd (sendLocalNotification h t b dat w))
           = take 50 (JSON_item (make_item h (local_notification t b (data_or_empty dat) nid)) # persisted w)"
proof -
  let ?w1 = "w\<lparr>requests := requests w @ [local_request t b (data_or_empty dat)]\<rparr>"
  have "storage ?w1 historyKey \<noteq> Some Unparseable" using assms(4) by simp
  from persisted_after_save [OF assms(2,3) this] assms(1) show ?thesis
    by (simp add: send_unfold split: sum.splits)
qed

lemma send_requests:
  assumes "fst (sendLocalNotification h t b dat w) = Inr nid"
  shows "requests (snd (sendLocalNotification h t b dat w))
           = requests w @ [local_request t b (data_or_empty dat)]"
  using assms by (simp add: send_unfold split: sum.splits)

lemma schedule_persisted:
  assumes "fst (scheduleNotification h t b dat secs w) = Inr nid"
    and "getItem_fault h = None" "setItem_fault h = None" "storage w historyKey \<noteq> Some Unparseable"
  shows "persisted (snd (scheduleNotification h t b dat secs w))
           = take 50 (JSON_item (make_item h (scheduled_notification t b (data_or_empty dat) nid
                        (toISOString h (Date_now h + seconds_or_60 secs * 1000)))) # persisted w)"
proof -
  let ?w1 = "w\<lparr>requests := requests w
               @ [scheduled_request t b (data_or_empty dat) (seconds_or_60 secs)]\<rparr>"
  have "storage ?w1 historyKey \<noteq> Some Unparseable" using assms(4) by simp
  from persisted_after_save [OF assms(2,3) this] assms(1) show ?thesis
    by (simp add: schedule_unfold split: sum.splits if_splits)
qed

lemma schedule_requests:
  assumes "fst (scheduleNotification h t b dat secs w) = Inr nid"
  shows "requests (snd (scheduleNotification h t b dat secs w))
           = requests w @ [scheduled_request t b (data_or_empty dat) (seconds_or_60 secs)]"
  using assms by (simp add: schedule_unfold split: sum.splits if_splits)

lemma schedule_rejected:
  "\<bar>Date_now h + seconds_or_60 secs * 1000\<bar> \<le> 8640000000000000 \<Longrightarrow>
   \<forall>r. scheduleNotificationAsync h r = Inl e \<Longrightarrow> scheduleNotification h t b dat secs w = (Inl e, w)"
  by (simp add: schedule_unfold)

lemma schedule_accepted:
  "\<bar>Date_now h + seconds_or_60 secs * 1000\<bar> \<le> 8640000000000000 \<Longrightarrow>
   \<forall>r. scheduleNotificationAsync h r = Inr nid \<Longrightarrow> fst (scheduleNotification h t b dat secs w) = Inr nid"
  by (simp add: schedule_unfold)

lemma send_storage_unchanged:
  assumes "getItem_fault h \<noteq> None \<or> storage w historyKey = Some Unparseable \<or> setItem_fault h \<noteq> None"
  shows "storage (snd (sendLocalNotification h t b dat w)) = storage w"
proof (cases "scheduleNotificationAsync h (local_request t b (data_or_empty dat))")
  case (Inl e)
  then show ?thesis by (simp add: send_unfold)
next
  case (Inr nid)
  let ?w1 = "w\<lparr>requests := requests w @ [local_request t b (data_or_empty dat)]\<rparr>"
  have "getItem_fault h \<noteq> None \<or> storage ?w1 historyKey = Some Unparseable \<or> setItem_fault h \<noteq> None"
    using assms by simp
  from storage_unchanged_save [OF this] Inr show ?thesis by (simp add: send_unfold)
qed

lemma schedule_storage_unchanged:
  assumes "getItem_fault h \<noteq> None \<or> storage w historyKey = Some Unparseable \<or> setItem_fault h \<noteq> None"
  shows "storage (snd (scheduleNotification h t b dat secs w)) = storage w"
proof (cases "fst (scheduleNotification h t b dat secs w)")
  case (Inl e)
  then show ?thesis by (simp add: schedule_failed)
next
  case (Inr nid)
  let ?w1 = "w\<lparr>requests := requests w
               @ [scheduled_request t b (data_or_empty dat) (seconds_or_60 secs)]\<rparr>"
  have "getItem_fault h \<noteq> None \<or> storage ?w1 historyKey = Some Unparseable \<or> setItem_fault h \<noteq> None"
    using assms by simp
  from storage_unchanged_save [OF this] Inr show ?thesis
    by (simp add: schedule_unfold split: sum.splits if_splits)
qed

subsection \<open>What a successful call leaves behind\<close>

lemma coerced:
  "\<exists>v. JSON_value (js_or a (JNum (Finite 0))) = Some v \<and> v \<noteq> JUndefined
       \<and> (a = JUndefined \<longrightarrow> v = JNum (Finite 0))"
  by (cases a rule: truthy.cases) (auto simp: js_or_def)

lemma local_item_data:
  "data (JSON_item (make_item h (local_notification t b d nid))) k =
     (if k = ''title'' then Some (JStr t)
      else if k = ''body'' then Some (JStr b)
      else if k = ''price'' then JSON_value (js_or (property d ''price'') (JNum (Finite 0)))
      else if k = ''quantity'' then JSON_value (js_or (property d ''quantity'') (JNum (Finite 0)))
      else JSON_object d k)"
  by (simp add: JSON_item_def make_item_def local_notification_def local_data_def
        JSON_object_def property_def)

lemma scheduled_item_data:
  "data (JSON_item (make_item h (scheduled_notification t b d nid stamp))) k =
     (if k = ''title'' then Some (JStr t)
      else if k = ''body'' then Some (JStr b)
      else if k = ''price'' then JSON_value (js_or (property d ''price'') (JNum (Finite 0)))
      else if k = ''quantity'' then JSON_value (js_or (property d ''quantity'') (JNum (Finite 0)))
      else None)"
  by (simp add: JSON_item_def make_item_def scheduled_notification_def scheduled_data_def
        JSON_object_def property_def)

lemma local_item_stamp [simp]:
  "shleduledAt (JSON_item (make_item h (local_notification t b d nid))) = []"
  by (simp add: JSON_item_def make_item_def local_notification_def)

lemma scheduled_item_stamp [simp]:
  "shleduledAt (JSON_item (make_item h (scheduled_notification t b d nid stamp))) = stamp"
  by (simp add: JSON_item_def make_item_def scheduled_notification_def)

lemma send_history:
  assumes "fst (sendLocalNotification h t b dat w) = Inr nid"
    and "getItem_fault h = None" "setItem_fault h = None" "storage w historyKey \<noteq> Some Unparseable"
    and "getItem_fault r = None"
  shows "getNotificationHistory r (snd (sendLocalNotification h t b dat w))
           = Inr (JSON_item (make_item h (local_notification t b (data_or_empty dat) nid))
                   # take 49 (persisted w))"
  using send_persisted [OF assms(1-4)] by (simp add: read_persisted [OF assms(5)])

lemma schedule_history:
  assumes "fst (scheduleNotification h t b dat secs w) = Inr nid"
    and "getItem_fault h = None" "setItem_fault h = None" "storage w historyKey \<noteq> Some Unparseable"
    and "getItem_fault r = None"
  shows "getNotificationHistory r (snd (scheduleNotification h t b dat secs w))
           = Inr (JSON_item (make_item h (scheduled_notification t b (data_or_empty dat) nid
                     (toISOString h (Date_now h + seconds_or_60 secs * 1000))))
                   # take 49 (persisted w))"
  using schedule_persisted [OF assms(1-4)] by (simp add: read_persisted [OF assms(5)])

lemma schedule_in_range:
  "fst (scheduleNotification h t b dat secs w) = Inr nid
   \<Longrightarrow> \<bar>Date_now h + seconds_or_60 secs * 1000\<bar> \<le> 8640000000000000"
  by (simp add: schedule_unfold split: if_splits)

lemma host_ok_facts:
  "getItem_fault host_ok = None" "setItem_fault host_ok = None" "removeItem_fault host_ok = None"
  "\<forall>r. scheduleNotificationAsync host_ok r = Inr ''notification-1''"
  "Date_now host_ok = 1700000000000"
  by (simp_all add: host_ok_def)

lemma world_empty_facts:
  "storage world_empty historyKey \<noteq> Some Unparseable" "persisted world_empty = []"
  by (simp_all add: world_empty_def persisted_def)

lemma sample_send:
  "fst (sendLocalNotification host_ok t b dat world_empty) = Inr ''notification-1''"
  by (rule send_accepted [OF host_ok_facts(4)])

lemma sample_schedule:
  "fst (scheduleNotification host_ok t b dat (Some 30) world_empty) = Inr ''notification-1''"
  by (rule schedule_accepted [OF _ host_ok_facts(4)]) (simp add: host_ok_facts seconds_or_60_def)

subsection \<open>Rendering\<close>

lemma floor_rat_numeral_divide:
  "\<lfloor>numeral a / numeral b :: rat\<rfloor> = numeral a div numeral b"
  by (metis floor_divide_of_int_eq of_int_numeral)

lemma digits_small: "n < 10 \<Longrightarrow> digits n = [digit_char n]"
  by (simp add: digits.simps)

lemma digits_step: "10 \<le> n \<Longrightarrow> digits n = digits (n div 10) @ [digit_char (n mod 10)]"
  by (simp add: digits.simps)

lemma latte_body:
  "order_confirmation_body h order_latte = ''Your order of 1 Latte is confirmed. Total: $4.50''"
proof -
  have d: "digits 450 = ''450''" "digits (Suc 0) = ''1''"
    by code_simp+
  have "toFixed h 2 (Finite (9 / 2)) = ''4.50''"
    by (simp add: toFixed_def Let_def floor_rat_numeral_divide d)
  moreover have "ToString h (Finite 1) = ''1''"
    by (simp add: ToString_def d)
  ultimately show ?thesis
    by (simp add: order_confirmation_body_def order_latte_def)
qed

lemma digit_char_0 [simp]: "digit_char 0 = CHR ''0''"
  by (simp add: digit_char_def)

lemma digit_char_decimal: "n < 10 \<Longrightarrow> digit_char n \<in> set ''0123456789''"
  unfolding digit_char_def by (rule nth_mem) simp

lemma digits_decimal: "set (digits n) \<subseteq> set ''0123456789''"
proof (induction n rule: digits.induct)
  case (1 n)
  show ?case
  proof (cases "n < 10")
    case True
    then show ?thesis using digit_char_decimal [of n] by (simp add: digits_small)
  next
    case False
    then have "set (digits (n div 10)) \<subseteq> set ''0123456789''" using 1 by simp
    moreover have "digit_char (n mod 10) \<in> set ''0123456789''"
      by (rule digit_char_decimal) simp
    ultimately show ?thesis using False by (simp add: digits_step)
  qed
qed

lemma digits_nonempty [simp]: "digits n \<noteq> []"
  by (cases "n < 10") (simp_all add: digits_small digits_step)

lemma point_two:
  fixes n :: nat
  defines "m \<equiv> (if length (digits n) \<le> 2
                  then replicate (2 + 1 - length (digits n)) (CHR ''0'') @ digits n else digits n)"
  shows "take (length m - 2) m @ ''.'' @ drop (length m - 2) m
           = digits (n div 100) @ ''.'' @ [digit_char (n div 10 mod 10), digit_char (n mod 10)]"
proof -
  consider "n < 10" | "10 \<le> n" "n < 100" | "100 \<le> n" by linarith
  then show ?thesis
  proof cases
    case 1
    then show ?thesis by (simp add: m_def digits_small)
  next
    case 2
    then have "n div 10 < 10" by simp
    then have "digits n = [digit_char (n div 10), digit_char (n mod 10)]"
      using 2 by (simp add: digits_step digits_small)
    moreover have "n div 100 = 0" "n div 10 mod 10 = n div 10" using 2 by simp_all
    ultimately show ?thesis by (simp add: m_def digits_small)
  next
    case 3
    then have "10 \<le> n" "10 \<le> n div 10" by simp_all
    then have "digits n = digits (n div 10 div 10) @ [digit_char (n div 10 mod 10), digit_char (n mod 10)]"
      by (simp add: digits_step [of n] digits_step [of "n div 10"])
    moreover have "n div 10 div 10 = n div 100" by (simp add: div_mult2_eq [symmetric])
    ultimately show ?thesis by (simp add: m_def)
  qed
qed

lemma toFixed_two:
  assumes "\<bar>r\<bar> < 10 ^ 21"
  shows "toFixed h 2 (Finite r) =
           (if r < 0 then ''-'' else []) @ digits (nat \<lfloor>\<bar>r\<bar> * 100 + 1 / 2\<rfloor> div 100) @ ''.''
             @ [digit_char (nat \<lfloor>\<bar>r\<bar> * 100 + 1 / 2\<rfloor> div 10 mod 10),
                digit_char (nat \<lfloor>\<bar>r\<bar> * 100 + 1 / 2\<rfloor> mod 10)]"
proof -
  have "\<not> 10 ^ 21 \<le> \<bar>r\<bar>" using assms by simp
  then show ?thesis
    using point_two [of "nat \<lfloor>\<bar>r\<bar> * 100 + 1 / 2\<rfloor>"]
    by (simp add: toFixed_def Let_def del: replicate.simps)
qed

lemma ToString_safe_integer:
  assumes "\<bar>q\<bar> < 2 ^ 53"
  shows "ToString h (Finite (of_int q)) = (if q < 0 then ''-'' else []) @ digits (nat \<bar>q\<bar>)"
proof -
  have "\<bar>of_int q :: rat\<bar> < 2 ^ 53"
    using assms by (metis of_int_abs of_int_less_numeral_power_cancel_iff)
  then show ?thesis by (simp add: ToString_def)
qed


lemma via_send:
  assumes call: "F = sendLocalNotification h T B (Some d) w"
  shows "\<exists>r. fst F = scheduleNotificationAsync h r \<and> title (content r) = T \<and> body (content r) = B"
    and "\<forall>nid. fst F = Inr nid \<longrightarrow> body (content (last (requests (snd F)))) = B"
proof -
  let ?r = "local_request T B (data_or_empty (Some d))"
  have "fst F = scheduleNotificationAsync h ?r" unfolding call by (rule send_reply)
  moreover have "title (content ?r) = T" "body (content ?r) = B"
    by (simp_all add: local_request_def)
  ultimately show "\<exists>r. fst F = scheduleNotificationAsync h r \<and> title (content r) = T \<and> body (content r) = B"
    by (intro exI conjI)
  show "\<forall>nid. fst F = Inr nid \<longrightarrow> body (content (last (requests (snd F)))) = B"
  proof (intro allI impI)
    fix nid assume "fst F = Inr nid"
    then have "requests (snd F) = requests w @ [?r]"
      unfolding call by (rule send_requests)
    then show "body (content (last (requests (snd F)))) = B"
      by (simp add: local_request_def)
  qed
qed


lemma booking_call:
  "\<exists>d. sendBookingConfirmationNotification h bk w
     = sendLocalNotification h title_booking
         (''Your '' @ bk @ '' are wait you'') (Some d) w"
  unfolding sendBookingConfirmationNotification_def Let_def by (intro exI) (rule refl)


lemma payment_call:
  "\<exists>d. sendPaymentConfirmationNotification h pd w
     = sendLocalNotification h title_payment
         (''Your payment of $'' @ toFixed h 2 (amount pd) @ '' has been processed successfully!'') (Some d) w"
  unfolding sendPaymentConfirmationNotification_def payment_body_def Let_def by (intro exI) (rule refl)


lemma order_call:
  "\<exists>d. sendOrderConfirmationNotification h od w
     = sendLocalNotification h title_order
         (''Your order of '' @ ToString h (quantity od) @ '' '' @ coffeeName od @ '' ''
           @ (if quantity od = Finite 1 then ''is'' else ''are'')
           @ '' confirmed. Total: $'' @ toFixed h 2 (totalPrice od)) (Some d) w"
  unfolding sendOrderConfirmationNotification_def order_confirmation_body_def Let_def by (intro exI) (rule refl)


lemma ready_call:
  "\<exists>d. sendOrderReadyNotification h od w
     = sendLocalNotification h title_ready
         (''Your '' @ coffeeName od @ '' ''
           @ (if greater_than (quantity od) 1 then ''('' @ ToString h (quantity od) @ ''x)'' else [])
           @ '' is ready for pickup!'') (Some d) w"
  unfolding sendOrderReadyNotification_def order_ready_body_def Let_def by (intro exI) (rule refl)


lemma offer_call:
  "\<exists>d. sendSpecialOfferNotification h ot cn dp op w
     = sendLocalNotification h title_offer
         (ot @ '': Get '' @ cn @ '' for $'' @ toFixed h 2 dp
           @ '' (was $'' @ toFixed h 2 op @ '')'') (Some d) w"
  unfolding sendSpecialOfferNotification_def Let_def by (intro exI) (rule refl)

subsection \<open>Properties carried by the data object\<close>

lemma scheduled_request_dom:
  "dom (data (content (scheduled_request t b d seconds))) = {''title'', ''body'', ''price'', ''quantity''}"
  by (simp add: scheduled_request_def scheduled_data_def insert_commute)

lemma scheduled_item_dom:
  "dom (data (JSON_item (make_item h (scheduled_notification t b d nid stamp))))
     = {''title'', ''body'', ''price'', ''quantity''}"
proof -
  obtain p q where "JSON_value (js_or (property d ''price'') (JNum (Finite 0))) = Some p"
    "JSON_value (js_or (property d ''quantity'') (JNum (Finite 0))) = Some q"
    using coerced by blast
  then have "\<And>k. (data (JSON_item (make_item h (scheduled_notification t b d nid stamp))) k \<noteq> None)
      = (k \<in> {''title'', ''body'', ''price'', ''quantity''})"
    by (simp add: scheduled_item_data)
  then show ?thesis unfolding dom_def by blast
qed

lemma local_request_other:
  "k \<notin> {''title'', ''body'', ''price'', ''quantity''}
   \<Longrightarrow> data (content (local_request t b d)) k = d k"
  by (simp add: local_request_def local_data_def)


lemma local_item_other:
  "k \<notin> {''title'', ''body'', ''price'', ''quantity''}
   \<Longrightarrow> data (JSON_item (make_item h (local_notification t b d nid))) k = JSON_object d k"
  by (simp add: local_item_data)

lemma JSON_object_kept: "d k = Some v \<Longrightarrow> JSON_value v = Some v \<Longrightarrow> JSON_object d k = Some v"
  by (simp add: JSON_object_def)

lemma schedule_request_fields:
  assumes sent: "fst (scheduleNotification h t b dat secs w) = Inr nid"
  shows "dom (data (content (last (requests (snd (scheduleNotification h t b dat secs w))))))
        = {''title'', ''body'', ''price'', ''quantity''}"
  unfolding schedule_requests [OF sent] last_snoc by (rule scheduled_request_dom)

lemma schedule_item_fields:
  assumes sent: "fst (scheduleNotification h t b dat secs w) = Inr nid"
    and ok: "getItem_fault h = None \<and> setItem_fault h = None
           \<and> storage w historyKey \<noteq> Some Unparseable \<and> getItem_fault r = None"
  shows "\<exists>item rest.
             getNotificationHistory r (snd (scheduleNotification h t b dat secs w)) = Inr (item # rest)
             \<and> dom (data item) = {''title'', ''body'', ''price'', ''quantity''}"
proof -
  from ok have "getItem_fault h = None" "setItem_fault h = None"
    "storage w historyKey \<noteq> Some Unparseable" "getItem_fault r = None" by simp_all
  note hist = schedule_history [OF sent this]
  show ?thesis
    by (intro exI conjI) (rule hist, rule scheduled_item_dom)
qed

lemma send_request_fields:
  assumes sent: "fst (sendLocalNotification h t b dat w) = Inr nid"
  shows "\<forall>k. k \<notin> {''title'', ''body'', ''price'', ''quantity''} \<longrightarrow>
         data (content (last (requests (snd (sendLocalNotification h t b dat w))))) k
           = data_or_empty dat k"
  unfolding send_requests [OF sent] last_snoc by (intro allI impI) (rule local_request_other)

lemma JSON_value_defined: "v \<noteq> JUndefined \<Longrightarrow> JSON_value v \<noteq> None"
  by (cases v rule: JSON_value.cases) simp_all

lemma local_request_keys: "d k = Some v \<Longrightarrow> data (content (local_request t b d)) k \<noteq> None"
  by (simp add: local_request_def local_data_def)

lemma local_item_keys:
  assumes "d k = Some v" "v \<noteq> JUndefined"
  shows "data (JSON_item (make_item h (local_notification t b d nid))) k \<noteq> None"
proof -
  have "JSON_object d k \<noteq> None"
    using assms by (simp add: JSON_object_def JSON_value_defined)
  moreover have "JSON_value (js_or (property d ''price'') (JNum (Finite 0))) \<noteq> None"
    "JSON_value (js_or (property d ''quantity'') (JNum (Finite 0))) \<noteq> None"
    using coerced [of "property d ''price''"] coerced [of "property d ''quantity''"] by auto
  ultimately show ?thesis by (simp add: local_item_data)
qed

lemma send_request_keys:
  assumes sent: "fst (sendLocalNotification h t b dat w) = Inr nid"
  shows "dom (data_or_empty dat)
           \<subseteq> dom (data (content (last (requests (snd (sendLocalNotification h t b dat w))))))"
  unfolding send_requests [OF sent] last_snoc
proof
  fix k assume "k \<in> dom (data_or_empty dat)"
  then obtain v where "data_or_empty dat k = Some v" by (auto simp only: domIff)
  then have "data (content (local_request t b (data_or_empty dat))) k \<noteq> None"
    by (rule local_request_keys)
  then show "k \<in> dom (data (content (local_request t b (data_or_empty dat))))"
    by (simp only: domIff not_False_eq_True)
qed

lemma send_item_fields:
  assumes sent: "fst (sendLocalNotification h t b dat w) = Inr nid"
    and ok: "getItem_fault h = None \<and> setItem_fault h = None
           \<and> storage w historyKey \<noteq> Some Unparseable \<and> getItem_fault r = None"
  shows "\<exists>item rest.
             getNotificationHistory r (snd (sendLocalNotification h t b dat w)) = Inr (item # rest)
             \<and> (\<forall>k. k \<notin> {''title'', ''body'', ''price'', ''quantity''} \<longrightarrow>
                   data item k = JSON_object (data_or_empty dat) k)
             \<and> (\<forall>k v. k \<notin> {''title'', ''body'', ''price'', ''quantity''}
                      \<and> data_or_empty dat k = Some v \<and> JSON_value v = Some v \<longrightarrow>
                   data item k = Some v)
             \<and> (\<forall>k v. data_or_empty dat k = Some v \<and> v \<noteq> JUndefined \<longrightarrow>
                   data item k \<noteq> None)"
proof -
  from ok have "getItem_fault h = None" "setItem_fault h = None"
    "storage w historyKey \<noteq> Some Unparseable" "getItem_fault r = None" by simp_all
  note hist = send_history [OF sent this]
  let ?item = "JSON_item (make_item h (local_notification t b (data_or_empty dat) nid))"
  have other: "\<forall>k. k \<notin> {''title'', ''body'', ''price'', ''quantity''} \<longrightarrow>
                   data ?item k = JSON_object (data_or_empty dat) k"
    by (intro allI impI) (rule local_item_other)
  have kept: "\<forall>k v. k \<notin> {''title'', ''body'', ''price'', ''quantity''}
                      \<and> data_or_empty dat k = Some v \<and> JSON_value v = Some v \<longrightarrow>
                   data ?item k = Some v"
  proof (intro allI impI)
    fix k v
    assume a: "k \<notin> {''title'', ''body'', ''price'', ''quantity''}
                      \<and> data_or_empty dat k = Some v \<and> JSON_value v = Some v"
    then have "data ?item k = JSON_object (data_or_empty dat) k"
      using local_item_other by blast
    also have "\<dots> = Some v" using a by (simp add: JSON_object_kept)
    finally show "data ?item k = Some v" .
  qed
  have keys: "\<forall>k v. data_or_empty dat k = Some v \<and> v \<noteq> JUndefined \<longrightarrow>
                   data ?item k \<noteq> None"
    using local_item_keys by blast
  show ?thesis
    by (intro exI conjI) (rule hist, rule other, rule kept, rule keys)
qed

subsection \<open>The scheduled time\<close>

lemma item_object_stamp:
  "item_object x ''shleduledAt'' = Some (Text (shleduledAt x))"
  "item_object x ''scheduledAt'' = None"
  by (simp_all add: item_object_def)

lemma schedule_given:
  assumes sent: "fst (scheduleNotification h t b dat secs w) = Inr nid"
    and store: "getItem_fault h = None" "setItem_fault h = None"
      "storage w historyKey \<noteq> Some Unparseable"
    and read: "getItem_fault r = None"
    and s: "seconds_or_60 secs = s"
  shows "\<bar>Date_now h + s * 1000\<bar> \<le> 8640000000000000
       \<and> fst (scheduleNotification h t b dat secs w)
           = scheduleNotificationAsync h (scheduled_request t b (data_or_empty dat) s)
       \<and> trigger (last (requests (snd (scheduleNotification h t b dat secs w)))) = Some s
       \<and> (\<exists>item rest.
            getNotificationHistory r (snd (scheduleNotification h t b dat secs w))
              = Inr (item # rest)
            \<and> id' item = nid
            \<and> item_object item ''shleduledAt''
                 = Some (Text (toISOString h (Date_now h + s * 1000)))
            \<and> item_object item ''scheduledAt'' = None)"
proof (intro conjI)
  show range: "\<bar>Date_now h + s * 1000\<bar> \<le> 8640000000000000"
    using schedule_in_range [OF sent] s by simp
  show "fst (scheduleNotification h t b dat secs w)
           = scheduleNotificationAsync h (scheduled_request t b (data_or_empty dat) s)"
    using schedule_reply [of h secs t b dat w] range s by simp
  show "trigger (last (requests (snd (scheduleNotification h t b dat secs w)))) = Some s"
    using s by (simp add: schedule_requests [OF sent] scheduled_request_def)
  show "\<exists>item rest.
            getNotificationHistory r (snd (scheduleNotification h t b dat secs w))
              = Inr (item # rest)
            \<and> id' item = nid
            \<and> item_object item ''shleduledAt''
                 = Some (Text (toISOString h (Date_now h + s * 1000)))
            \<and> item_object item ''scheduledAt'' = None"
    using schedule_history [OF sent store read] s
    by (simp add: item_object_stamp) (simp add: JSON_item_def make_item_def scheduled_notification_def)
qed

lemma host_minute_facts:
  "getItem_fault host_minute = None" "setItem_fault host_minute = None"
  "\<forall>r. scheduleNotificationAsync host_minute r = Inr ''notification-1''"
  "Date_now host_minute = 1700000000000"
  by (simp_all add: host_minute_def host_ok_def)

section \<open>Claims\<close>

text \<open>
  C1. Capacity. Read back with a working storage, the history after an append is no
  longer than 50 whenever it was no longer than 50 before, and also whenever the
  append's own storage calls succeed; when the append performs its write, the history
  is the new item followed by the earlier ones, cut to the first 50, so the oldest are
  the ones dropped. After 51 appends to a store that holds nothing, with the storage
  working, the history has 50 items and its last is the item of the second call.
\<close>

theorem history_capacity:
  assumes "getItem_fault r = None"
  shows "(\<exists>old new.
            getNotificationHistory r w = Inr old \<and>
            getNotificationHistory r (snd (saveNotificationToHistory h n w)) = Inr new \<and>
            (length old \<le> 50 \<longrightarrow> length new \<le> 50) \<and>
            (getItem_fault h = None \<and> setItem_fault h = None \<longrightarrow> length new \<le> 50) \<and>
            (getItem_fault h = None \<and> setItem_fault h = None
               \<and> storage w historyKey \<noteq> Some Unparseable
             \<longrightarrow> new = take 50 (JSON_item (make_item h n) # old)))
       \<and> (length calls = 51
            \<and> (\<forall>c\<in>set calls. getItem_fault (fst c) = None \<and> setItem_fault (fst c) = None)
            \<and> storage w historyKey = None
          \<longrightarrow> (\<exists>xs. getNotificationHistory r (save_all calls w) = Inr xs \<and> length xs = 50
                 \<and> last xs = JSON_item (make_item (fst (calls ! 1)) (snd (calls ! 1)))))"
proof (intro conjI impI)
  let ?w' = "snd (saveNotificationToHistory h n w)"
  have bounded: "length (persisted w) \<le> 50 \<longrightarrow> length (persisted ?w') \<le> 50"
    using persisted_bounded by blast
  have performed: "getItem_fault h = None \<and> setItem_fault h = None
        \<and> storage w historyKey \<noteq> Some Unparseable
      \<longrightarrow> persisted ?w' = take 50 (JSON_item (make_item h n) # persisted w)"
    using persisted_after_save by blast
  have working: "getItem_fault h = None \<and> setItem_fault h = None \<longrightarrow> length (persisted ?w') \<le> 50"
  proof (cases "storage w historyKey = Some Unparseable")
    case True
    then show ?thesis using bounded by (simp add: persisted_unparseable)
  next
    case False
    then show ?thesis using performed by auto
  qed
  show "\<exists>old new.
            getNotificationHistory r w = Inr old \<and>
            getNotificationHistory r ?w' = Inr new \<and>
            (length old \<le> 50 \<longrightarrow> length new \<le> 50) \<and>
            (getItem_fault h = None \<and> setItem_fault h = None \<longrightarrow> length new \<le> 50) \<and>
            (getItem_fault h = None \<and> setItem_fault h = None
               \<and> storage w historyKey \<noteq> Some Unparseable
             \<longrightarrow> new = take 50 (JSON_item (make_item h n) # old))"
    using bounded performed working read_persisted [OF assms] by blast
next
  assume a: "length calls = 51
            \<and> (\<forall>c\<in>set calls. getItem_fault (fst c) = None \<and> setItem_fault (fst c) = None)
            \<and> storage w historyKey = None"
  then have empty: "persisted w = []" by (simp add: persisted_def)
  have "persisted (save_all calls w) = take 50 (rev (map stored_item calls))"
    using persisted_save_all [of calls w] a empty by simp
  moreover have "length (map stored_item calls) = 51" using a by simp
  ultimately have "length (persisted (save_all calls w)) = 50
      \<and> last (persisted (save_all calls w)) = map stored_item calls ! 1"
    using fifty_one [of "map stored_item calls"] by simp
  moreover have "map stored_item calls ! 1 = JSON_item (make_item (fst (calls ! 1)) (snd (calls ! 1)))"
    using a by (simp add: stored_item_def)
  ultimately show "\<exists>xs. getNotificationHistory r (save_all calls w) = Inr xs \<and> length xs = 50
                 \<and> last xs = JSON_item (make_item (fst (calls ! 1)) (snd (calls ! 1)))"
    using read_persisted [OF assms] by simp
qed

theorem history_capacity_witness:
  "getItem_fault host_ok = None \<and> length calls51 = 51 \<and> storage world_empty historyKey = None
   \<and> (\<exists>xs. getNotificationHistory host_ok (save_all calls51 world_empty) = Inr xs
          \<and> length xs = 50 \<and> id' (last xs) = ''1'')"
proof -
  have r: "getItem_fault host_ok = None" by (simp add: host_ok_def)
  have n: "length calls51 = 51" by (simp add: calls51_def)
  have c: "\<forall>c\<in>set calls51. getItem_fault (fst c) = None \<and> setItem_fault (fst c) = None"
    by (simp add: calls51_def host_ok_def)
  have s: "storage world_empty historyKey = None" by (simp add: world_empty_def)
  have i: "id' (JSON_item (make_item host_ok (sample 1))) = ''1''"
    by (simp add: JSON_item_def make_item_def sample_def digits.simps digit_char_def)
  have "length calls51 = 51
            \<and> (\<forall>c\<in>set calls51. getItem_fault (fst c) = None \<and> setItem_fault (fst c) = None)
            \<and> storage world_empty historyKey = None
          \<longrightarrow> (\<exists>xs. getNotificationHistory host_ok (save_all calls51 world_empty) = Inr xs
                 \<and> length xs = 50
                 \<and> last xs = JSON_item (make_item (fst (calls51 ! 1)) (snd (calls51 ! 1))))"
    using history_capacity [OF r, of world_empty host_ok "sample 0" calls51] by (rule conjunct2)
  with n c s obtain xs where xs:
    "getNotificationHistory host_ok (save_all calls51 world_empty) = Inr xs" "length xs = 50"
    "last xs = JSON_item (make_item (fst (calls51 ! 1)) (snd (calls51 ! 1)))"
    by blast
  from xs(3) have "id' (last xs) = ''1''"
    using i by (simp only: calls51_second fst_conv snd_conv)
  with xs r n s show ?thesis by blast
qed


text \<open>
  C2. Ordering. An append that performs its write (its read and write are not
  rejected and the stored text is not one that fails to parse) puts its item at
  position 0: after appending \<open>A\<close> and then \<open>B\<close>, a working read returns the item of
  \<open>B\<close>, then the item of \<open>A\<close>, then the earlier history, as far as the cap of 50 leaves
  room for it.
\<close>

theorem history_order:
  assumes r: "getItem_fault r = None"
    and a: "saveNotificationToHistory_try hA A w = Inr wA"
    and b: "saveNotificationToHistory_try hB B wA = Inr wB"
  shows "getItem_fault hA = None \<and> setItem_fault hA = None
         \<and> storage w historyKey \<noteq> Some Unparseable
       \<and> snd (saveNotificationToHistory hA A w) = wA
       \<and> snd (saveNotificationToHistory hB B wA) = wB
       \<and> (\<exists>old.
           getNotificationHistory r w = Inr old \<and>
           getNotificationHistory r wA = Inr (JSON_item (make_item hA A) # take 49 old) \<and>
           getNotificationHistory r wB
             = Inr (JSON_item (make_item hB B) # JSON_item (make_item hA A) # take 48 old))"
proof -
  have okA: "getItem_fault hA = None" "setItem_fault hA = None"
      "storage w historyKey \<noteq> Some Unparseable"
    using a save_performed_iff [of hA A w] by simp_all
  have okB: "getItem_fault hB = None" "setItem_fault hB = None"
      "storage wA historyKey \<noteq> Some Unparseable"
    using b save_performed_iff [of hB B wA] by simp_all
  have wA: "snd (saveNotificationToHistory hA A w) = wA" by (simp add: save_world a)
  have wB: "snd (saveNotificationToHistory hB B wA) = wB" by (simp add: save_world b)
  have pA: "persisted wA = take 50 (JSON_item (make_item hA A) # persisted w)"
    using persisted_after_save [OF okA, of A] by (simp only: wA)
  have "persisted wB = take 50 (JSON_item (make_item hB B) # persisted wA)"
    using persisted_after_save [OF okB, of B] by (simp only: wB)
  then have pB: "persisted wB
      = JSON_item (make_item hB B) # JSON_item (make_item hA A) # take 48 (persisted w)"
    by (simp add: pA)
  show ?thesis
    using okA wA wB pA pB by (simp add: read_persisted [OF r])
qed

theorem history_order_witness:
  "getItem_fault host_ok = None
   \<and> (\<exists>wA wB.
         saveNotificationToHistory_try host_ok (sample 1) world_empty = Inr wA
         \<and> saveNotificationToHistory_try host_ok (sample 2) wA = Inr wB
         \<and> getNotificationHistory host_ok wB
             = Inr [JSON_item (make_item host_ok (sample 2)), JSON_item (make_item host_ok (sample 1))])"
proof -
  have g: "getItem_fault host_ok = None" and s: "setItem_fault host_ok = None"
    by (simp_all add: host_ok_def)
  have e: "getNotificationHistory host_ok world_empty = Inr []"
    by (simp add: read_persisted [OF g] persisted_def world_empty_def)
  obtain wA where a: "saveNotificationToHistory_try host_ok (sample 1) world_empty = Inr wA"
    using save_performed_iff [of host_ok "sample 1" world_empty] g s
    by (auto simp: world_empty_def)
  then have "storage wA historyKey \<noteq> Some Unparseable"
    using storage_after_save [of world_empty host_ok "sample 1"]
    by (simp add: save_world world_empty_def)
  then obtain wB where b: "saveNotificationToHistory_try host_ok (sample 2) wA = Inr wB"
    using save_performed_iff [of host_ok "sample 2" wA] g s by auto
  have "getNotificationHistory host_ok wB
      = Inr [JSON_item (make_item host_ok (sample 2)), JSON_item (make_item host_ok (sample 1))]"
    using history_order [OF g a b] e by auto
  with g a b show ?thesis by blast
qed


text \<open>
  C8. Persistence failures are suppressed. For every host and every world, the
  writer, the reader and the clearing operation resolve without an error. The reader
  returns the empty list when the read is rejected or the text does not parse; the writer
  leaves the world as it was when its read, its parse or its write fails; the clearing
  operation leaves the world as it was when the removal is rejected.
\<close>

theorem persistence_failures_suppressed:
  "fst (saveNotificationToHistory h n w) = Inr ()
   \<and> fst (clearNotificationHistory h w) = Inr ()
   \<and> (\<exists>xs. getNotificationHistory h w = Inr xs)
   \<and> (getItem_fault h \<noteq> None \<or> storage w historyKey = Some Unparseable
        \<longrightarrow> getNotificationHistory h w = Inr [])
   \<and> (getItem_fault h \<noteq> None \<or> storage w historyKey = Some Unparseable \<or> setItem_fault h \<noteq> None
        \<longrightarrow> snd (saveNotificationToHistory h n w) = w)
   \<and> (removeItem_fault h \<noteq> None \<longrightarrow> snd (clearNotificationHistory h w) = w)"
proof (intro conjI impI)
  show "fst (saveNotificationToHistory h n w) = Inr ()"
    by (simp add: saveNotificationToHistory_def split: sum.splits)
  show "fst (clearNotificationHistory h w) = Inr ()"
    by (simp add: clearNotificationHistory_def split: sum.splits)
  show "\<exists>xs. getNotificationHistory h w = Inr xs"
    by (simp add: getNotificationHistory_def split: sum.splits)
  show "getNotificationHistory h w = Inr []"
    if "getItem_fault h \<noteq> None \<or> storage w historyKey = Some Unparseable"
    using that by (auto simp: getNotificationHistory_def getItem_def split: sum.splits option.splits)
  show "snd (saveNotificationToHistory h n w) = w"
    if "getItem_fault h \<noteq> None \<or> storage w historyKey = Some Unparseable \<or> setItem_fault h \<noteq> None"
    using save_skipped [OF that, of n] by (auto simp: save_world)
  show "snd (clearNotificationHistory h w) = w" if "removeItem_fault h \<noteq> None"
    using that by (auto simp: clearNotificationHistory_def removeItem_def split: option.splits)
qed

theorem persistence_failures_suppressed_witness:
  "getItem_fault host_down \<noteq> None \<and> setItem_fault host_down \<noteq> None \<and> removeItem_fault host_down \<noteq> None
   \<and> storage world_corrupt historyKey = Some Unparseable
   \<and> saveNotificationToHistory host_down (sample 1) world_empty = (Inr (), world_empty)
   \<and> saveNotificationToHistory host_ok (sample 1) world_corrupt = (Inr (), world_corrupt)
   \<and> clearNotificationHistory host_down world_corrupt = (Inr (), world_corrupt)
   \<and> getNotificationHistory host_down world_empty = Inr []
   \<and> getNotificationHistory host_ok world_corrupt = Inr []"
proof -
  have f: "getItem_fault host_down \<noteq> None" "setItem_fault host_down \<noteq> None"
    "removeItem_fault host_down \<noteq> None"
    by (simp_all add: host_down_def host_ok_def)
  have c: "storage world_corrupt historyKey = Some Unparseable"
    by (simp add: world_corrupt_def)
  show ?thesis
    using persistence_failures_suppressed [of host_down "sample 1" world_empty]
      persistence_failures_suppressed [of host_ok "sample 1" world_corrupt]
      persistence_failures_suppressed [of host_down "sample 1" world_corrupt] f c
    by (simp add: prod_eq_iff)
qed

text \<open>
  C9. Clear, then read. When the host performs the removal, nothing is left under the
  history key, and the reader returns the empty list whatever the world held before
  and however the host behaves during the read.
\<close>

theorem clear_then_getAll:
  assumes "removeItem_fault h = None"
  shows "storage (snd (clearNotificationHistory h w)) historyKey = None
         \<and> getNotificationHistory r (snd (clearNotificationHistory h w)) = Inr []"
  using assms
  by (auto simp: clearNotificationHistory_def removeItem_def getNotificationHistory_def getItem_def
        split: option.splits sum.splits)

theorem clear_then_getAll_witness:
  "removeItem_fault host_ok = None
   \<and> getNotificationHistory host_ok
        (snd (clearNotificationHistory host_ok
           (snd (saveNotificationToHistory host_ok (sample 1) world_empty)))) = Inr []
   \<and> getNotificationHistory host_ok (snd (clearNotificationHistory host_ok world_corrupt)) = Inr []"
proof -
  have r: "removeItem_fault host_ok = None" by (simp add: host_ok_def)
  show ?thesis
    using clear_then_getAll [OF r] r by simp
qed


text \<open>
  C3. Delivery failures propagate, persistence failures do not. The two primitives
  return exactly what the host notification service replied to their request (for the
  scheduled one, once the trigger time is a valid date), whatever the storage does; a
  call that fails leaves the world, and so the history, as it was; and when the
  history write fails the store is unchanged while the result is still the host's
  reply. Each event notification is one call of the immediate primitive, so the same
  holds of it: it fails with the host's error, changing nothing, on a host that
  rejects, and returns the host's identifier on a host that accepts.
\<close>

theorem delivery_failure_policy:
  "\<comment> \<open>the two primitives return the host's reply to their request\<close>
   fst (sendLocalNotification h t b dat w)
     = scheduleNotificationAsync h (local_request t b (data_or_empty dat))
   \<and> (\<bar>Date_now h + seconds_or_60 secs * 1000\<bar> \<le> 8640000000000000 \<longrightarrow>
        fst (scheduleNotification h t b dat secs w)
          = scheduleNotificationAsync h (scheduled_request t b (data_or_empty dat) (seconds_or_60 secs)))
   \<comment> \<open>a failed call leaves the world as it was\<close>
   \<and> (\<forall>e. fst (sendLocalNotification h t b dat w) = Inl e \<longrightarrow> snd (sendLocalNotification h t b dat w) = w)
   \<and> (\<forall>e. fst (scheduleNotification h t b dat secs w) = Inl e
          \<longrightarrow> snd (scheduleNotification h t b dat secs w) = w)
   \<comment> \<open>a failing history write changes neither the result nor the store\<close>
   \<and> (getItem_fault h \<noteq> None \<or> storage w historyKey = Some Unparseable \<or> setItem_fault h \<noteq> None
        \<longrightarrow> storage (snd (sendLocalNotification h t b dat w)) = storage w
          \<and> storage (snd (scheduleNotification h t b dat secs w)) = storage w)
   \<comment> \<open>each event notification is a call of the immediate primitive\<close>
   \<and> (\<exists>t b d. sendBookingConfirmationNotification h bk w = sendLocalNotification h t b (Some d) w)
   \<and> (\<exists>t b d. sendPaymentConfirmationNotification h pd w = sendLocalNotification h t b (Some d) w)
   \<and> (\<exists>t b d. sendOrderConfirmationNotification h od w = sendLocalNotification h t b (Some d) w)
   \<and> (\<exists>t b d. sendOrderReadyNotification h od w = sendLocalNotification h t b (Some d) w)
   \<and> (\<exists>t b d. sendSpecialOfferNotification h ot cn dp op w
                = sendLocalNotification h t b (Some d) w)
   \<and> ((\<forall>r. scheduleNotificationAsync h r = Inl e) \<longrightarrow>
          sendBookingConfirmationNotification h bk w = (Inl e, w)
        \<and> sendPaymentConfirmationNotification h pd w = (Inl e, w)
        \<and> sendOrderConfirmationNotification h od w = (Inl e, w)
        \<and> sendOrderReadyNotification h od w = (Inl e, w)
        \<and> sendSpecialOfferNotification h ot cn dp op w = (Inl e, w))
   \<and> ((\<forall>r. scheduleNotificationAsync h r = Inr nid) \<longrightarrow>
          fst (sendBookingConfirmationNotification h bk w) = Inr nid
        \<and> fst (sendPaymentConfirmationNotification h pd w) = Inr nid
        \<and> fst (sendOrderConfirmationNotification h od w) = Inr nid
        \<and> fst (sendOrderReadyNotification h od w) = Inr nid
        \<and> fst (sendSpecialOfferNotification h ot cn dp op w) = Inr nid)"
proof (intro conjI impI allI)
  show "fst (sendLocalNotification h t b dat w)
     = scheduleNotificationAsync h (local_request t b (data_or_empty dat))"
    by (rule send_reply)
  show "fst (scheduleNotification h t b dat secs w)
          = scheduleNotificationAsync h (scheduled_request t b (data_or_empty dat) (seconds_or_60 secs))"
    if "\<bar>Date_now h + seconds_or_60 secs * 1000\<bar> \<le> 8640000000000000"
    using that by (rule schedule_reply)
  show "snd (sendLocalNotification h t b dat w) = w"
    if "fst (sendLocalNotification h t b dat w) = Inl e" for e
    using that by (rule send_failed)
  show "snd (scheduleNotification h t b dat secs w) = w"
    if "fst (scheduleNotification h t b dat secs w) = Inl e" for e
    using that by (rule schedule_failed)
next
  assume f: "getItem_fault h \<noteq> None \<or> storage w historyKey = Some Unparseable \<or> setItem_fault h \<noteq> None"
  show "storage (snd (sendLocalNotification h t b dat w)) = storage w"
    using f by (rule send_storage_unchanged)
  show "storage (snd (scheduleNotification h t b dat secs w)) = storage w"
    using f by (rule schedule_storage_unchanged)
next
  show "\<exists>t b d. sendBookingConfirmationNotification h bk w = sendLocalNotification h t b (Some d) w"
    unfolding sendBookingConfirmationNotification_def Let_def by (intro exI) (rule refl)
  show "\<exists>t b d. sendPaymentConfirmationNotification h pd w = sendLocalNotification h t b (Some d) w"
    unfolding sendPaymentConfirmationNotification_def Let_def by (intro exI) (rule refl)
  show "\<exists>t b d. sendOrderConfirmationNotification h od w = sendLocalNotification h t b (Some d) w"
    unfolding sendOrderConfirmationNotification_def Let_def by (intro exI) (rule refl)
  show "\<exists>t b d. sendOrderReadyNotification h od w = sendLocalNotification h t b (Some d) w"
    unfolding sendOrderReadyNotification_def Let_def by (intro exI) (rule refl)
  show "\<exists>t b d. sendSpecialOfferNotification h ot cn dp op w
                = sendLocalNotification h t b (Some d) w"
    unfolding sendSpecialOfferNotification_def Let_def by (intro exI) (rule refl)
next
  assume r: "\<forall>r. scheduleNotificationAsync h r = Inl e"
  show "sendBookingConfirmationNotification h bk w = (Inl e, w)"
    by (simp add: sendBookingConfirmationNotification_def Let_def send_rejected [OF r])
  show "sendPaymentConfirmationNotification h pd w = (Inl e, w)"
    by (simp add: sendPaymentConfirmationNotification_def Let_def send_rejected [OF r])
  show "sendOrderConfirmationNotification h od w = (Inl e, w)"
    by (simp add: sendOrderConfirmationNotification_def Let_def send_rejected [OF r])
  show "sendOrderReadyNotification h od w = (Inl e, w)"
    by (simp add: sendOrderReadyNotification_def Let_def send_rejected [OF r])
  show "sendSpecialOfferNotification h ot cn dp op w = (Inl e, w)"
    by (simp add: sendSpecialOfferNotification_def Let_def send_rejected [OF r])
next
  assume a: "\<forall>r. scheduleNotificationAsync h r = Inr nid"
  show "fst (sendBookingConfirmationNotification h bk w) = Inr nid"
    by (simp add: sendBookingConfirmationNotification_def Let_def send_accepted [OF a])
  show "fst (sendPaymentConfirmationNotification h pd w) = Inr nid"
    by (simp add: sendPaymentConfirmationNotification_def Let_def send_accepted [OF a])
  show "fst (sendOrderConfirmationNotification h od w) = Inr nid"
    by (simp add: sendOrderConfirmationNotification_def Let_def send_accepted [OF a])
  show "fst (sendOrderReadyNotification h od w) = Inr nid"
    by (simp add: sendOrderReadyNotification_def Let_def send_accepted [OF a])
  show "fst (sendSpecialOfferNotification h ot cn dp op w) = Inr nid"
    by (simp add: sendSpecialOfferNotification_def Let_def send_accepted [OF a])
qed


theorem delivery_failure_policy_witness:
  "(\<forall>r. scheduleNotificationAsync host_down r = Inl (NotificationError ''permission denied''))
   \<and> sendOrderConfirmationNotification host_down order_latte world_empty
       = (Inl (NotificationError ''permission denied''), world_empty)
   \<and> \<bar>Date_now host_down + seconds_or_60 (Some 30) * 1000\<bar> \<le> 8640000000000000
   \<and> scheduleNotification host_down ''T'' ''B'' None (Some 30) world_empty
       = (Inl (NotificationError ''permission denied''), world_empty)
   \<and> (\<forall>r. scheduleNotificationAsync host_storage_down r = Inr ''notification-1'')
   \<and> setItem_fault host_storage_down \<noteq> None
   \<and> fst (sendOrderConfirmationNotification host_storage_down order_latte world_empty)
       = Inr ''notification-1''
   \<and> fst (scheduleNotification host_storage_down ''T'' ''B'' None (Some 30) world_empty)
       = Inr ''notification-1''
   \<and> storage (snd (scheduleNotification host_storage_down ''T'' ''B'' None (Some 30) world_empty))
       = storage world_empty"
proof -
  let ?e = "NotificationError ''permission denied''"
  have rej: "\<forall>r. scheduleNotificationAsync host_down r = Inl ?e"
    by (simp add: host_down_def)
  have acc: "\<forall>r. scheduleNotificationAsync host_storage_down r = Inr ''notification-1''"
    by (simp add: host_storage_down_def host_ok_def)
  have flt: "setItem_fault host_storage_down \<noteq> None"
    by (simp add: host_storage_down_def)
  have d1: "\<bar>Date_now host_down + seconds_or_60 (Some 30) * 1000\<bar> \<le> 8640000000000000"
    by (simp add: host_down_def host_ok_def seconds_or_60_def)
  have d2: "\<bar>Date_now host_storage_down + seconds_or_60 (Some 30) * 1000\<bar> \<le> 8640000000000000"
    by (simp add: host_storage_down_def host_ok_def seconds_or_60_def)
  note down = delivery_failure_policy [where h = host_down and e = ?e and od = order_latte
      and w = world_empty and t = "''T''" and b = "''B''" and dat = None and secs = "Some 30"]
  note up = delivery_failure_policy [where h = host_storage_down and nid = "''notification-1''"
      and od = order_latte and w = world_empty and t = "''T''" and b = "''B''" and dat = None
      and secs = "Some 30"]
  have 1: "sendOrderConfirmationNotification host_down order_latte world_empty = (Inl ?e, world_empty)"
    using down rej by blast
  have "fst (scheduleNotification host_down ''T'' ''B'' None (Some 30) world_empty) = Inl ?e"
    using down d1 rej by simp
  moreover from this have "snd (scheduleNotification host_down ''T'' ''B'' None (Some 30) world_empty) = world_empty"
    using down by blast
  ultimately have 2: "scheduleNotification host_down ''T'' ''B'' None (Some 30) world_empty = (Inl ?e, world_empty)"
    by (simp add: prod_eq_iff)
  have 3: "fst (sendOrderConfirmationNotification host_storage_down order_latte world_empty)
       = Inr ''notification-1''"
    using up acc by blast
  have 4: "fst (scheduleNotification host_storage_down ''T'' ''B'' None (Some 30) world_empty)
       = Inr ''notification-1''"
    using up d2 acc by simp
  have 5: "storage (snd (scheduleNotification host_storage_down ''T'' ''B'' None (Some 30) world_empty))
       = storage world_empty"
    using up flt by blast
  show ?thesis
    using rej acc flt d1 1 2 3 4 5 by blast
qed

text \<open>
  C4. The order-confirmation scenario. For the order of one Latte at 4.5 with order id
  \<open>o1\<close>, the body is \<open>Your order of 1 Latte is confirmed. Total: $4.50\<close>; when the call
  succeeds and the history write is performed, the first item read back carries that
  body and a \<open>data\<close> object with exactly the eight properties of the scenario, the
  timestamp being the host's ISO rendering of the clock.
\<close>

theorem order_confirmation_scenario:
  assumes sent: "fst (sendOrderConfirmationNotification h order_latte w) = Inr nid"
    and store: "getItem_fault h = None" "setItem_fault h = None"
      "storage w historyKey \<noteq> Some Unparseable"
    and read: "getItem_fault r = None"
  shows "order_confirmation_body h order_latte = ''Your order of 1 Latte is confirmed. Total: $4.50''
    \<and> (\<exists>item rest.
          getNotificationHistory r (snd (sendOrderConfirmationNotification h order_latte w))
            = Inr (item # rest)
          \<and> body item = ''Your order of 1 Latte is confirmed. Total: $4.50''
          \<and> data item =
              [''title'' \<mapsto> JStr title_order,
               ''body'' \<mapsto> JStr ''Your order of 1 Latte is confirmed. Total: $4.50'',
               ''price'' \<mapsto> JNum (Finite (9 / 2)),
               ''quantity'' \<mapsto> JNum (Finite 1),
               ''type'' \<mapsto> JStr ''order_confirmed'',
               ''orderId'' \<mapsto> JStr ''o1'',
               ''coffeeName'' \<mapsto> JStr ''Latte'',
               ''timestamp'' \<mapsto> JStr (toISOString h (Date_now h))])"
proof -
  let ?body = "''Your order of 1 Latte is confirmed. Total: $4.50''"
  let ?dat = "[''title'' \<mapsto> JStr title_order, ''body'' \<mapsto> JStr ?body,
               ''price'' \<mapsto> JNum (Finite (9 / 2)), ''quantity'' \<mapsto> JNum (Finite 1),
               ''type'' \<mapsto> JStr ''order_confirmed'', ''orderId'' \<mapsto> JStr ''o1'',
               ''coffeeName'' \<mapsto> JStr ''Latte'',
               ''timestamp'' \<mapsto> JStr (toISOString h (Date_now h))]"
  have call: "sendOrderConfirmationNotification h order_latte w
      = sendLocalNotification h title_order ?body (Some ?dat) w"
    by (simp add: sendOrderConfirmationNotification_def Let_def latte_body) (simp add: order_latte_def)
  let ?item = "JSON_item (make_item h (local_notification title_order ?body ?dat nid))"
  have "persisted (snd (sendOrderConfirmationNotification h order_latte w))
      = take 50 (?item # persisted w)"
    using send_persisted [of h title_order ?body "Some ?dat" w nid] sent store
    by (simp add: call data_or_empty_def)
  then have hist: "getNotificationHistory r (snd (sendOrderConfirmationNotification h order_latte w))
      = Inr (?item # take 49 (persisted w))"
    by (simp add: read_persisted [OF read])
  have b: "body ?item = ?body"
    by (simp add: JSON_item_def make_item_def local_notification_def)
  have d: "data ?item = ?dat"
    by (rule ext)
      (simp add: JSON_item_def make_item_def local_notification_def local_data_def
        JSON_object_def property_def js_or_def)
  show ?thesis
    using hist b d latte_body by blast
qed


theorem order_confirmation_scenario_witness:
  "fst (sendOrderConfirmationNotification host_ok order_latte world_empty) = Inr ''notification-1''
   \<and> getItem_fault host_ok = None \<and> setItem_fault host_ok = None
   \<and> storage world_empty historyKey \<noteq> Some Unparseable
   \<and> (\<exists>item rest.
         getNotificationHistory host_ok (snd (sendOrderConfirmationNotification host_ok order_latte world_empty))
           = Inr (item # rest)
         \<and> body item = ''Your order of 1 Latte is confirmed. Total: $4.50''
         \<and> data item ''price'' = Some (JNum (Finite (9 / 2)))
         \<and> data item ''timestamp'' = Some (JStr ''2023-11-14T22:13:20.000Z'')
         \<and> data item ''paymentId'' = None)"
proof -
  have sent: "fst (sendOrderConfirmationNotification host_ok order_latte world_empty) = Inr ''notification-1''"
    by (simp add: sendOrderConfirmationNotification_def Let_def send_accepted [OF host_ok_facts(4)])
  have t: "toISOString host_ok (Date_now host_ok) = ''2023-11-14T22:13:20.000Z''"
    by (simp add: host_ok_def)
  from order_confirmation_scenario [OF sent host_ok_facts(1,2) world_empty_facts(1) host_ok_facts(1)]
  obtain item rest where
    "getNotificationHistory host_ok (snd (sendOrderConfirmationNotification host_ok order_latte world_empty))
       = Inr (item # rest)"
    "body item = ''Your order of 1 Latte is confirmed. Total: $4.50''"
    "data item =
              [''title'' \<mapsto> JStr title_order,
               ''body'' \<mapsto> JStr ''Your order of 1 Latte is confirmed. Total: $4.50'',
               ''price'' \<mapsto> JNum (Finite (9 / 2)),
               ''quantity'' \<mapsto> JNum (Finite 1),
               ''type'' \<mapsto> JStr ''order_confirmed'',
               ''orderId'' \<mapsto> JStr ''o1'',
               ''coffeeName'' \<mapsto> JStr ''Latte'',
               ''timestamp'' \<mapsto> JStr (toISOString host_ok (Date_now host_ok))]"
    by blast
  moreover from this(3) have "data item ''price'' = Some (JNum (Finite (9 / 2)))"
    "data item ''timestamp'' = Some (JStr ''2023-11-14T22:13:20.000Z'')"
    "data item ''paymentId'' = None"
    by (simp_all add: t)
  ultimately show ?thesis
    using sent host_ok_facts(1,2) world_empty_facts(1) by blast
qed

text \<open>
  C6. Price and quantity are always present. When a notification is sent or scheduled
  and the history write is performed, the item read back has a \<open>price\<close> and a
  \<open>quantity\<close> property, neither of them \<^verbatim>\<open>undefined\<close>; each is the number 0 when the
  property is absent from (or \<^verbatim>\<open>undefined\<close> in) the \<open>data\<close> given to the call.
\<close>

theorem price_quantity_present:
  assumes store: "getItem_fault h = None" "setItem_fault h = None"
      "storage w historyKey \<noteq> Some Unparseable"
    and read: "getItem_fault r = None"
  shows "(fst (sendLocalNotification h t b dat w) = Inr nid \<longrightarrow>
           (\<exists>item rest p q.
              getNotificationHistory r (snd (sendLocalNotification h t b dat w)) = Inr (item # rest)
              \<and> data item ''price'' = Some p \<and> p \<noteq> JUndefined
              \<and> data item ''quantity'' = Some q \<and> q \<noteq> JUndefined
              \<and> (property (data_or_empty dat) ''price'' = JUndefined \<longrightarrow> p = JNum (Finite 0))
              \<and> (property (data_or_empty dat) ''quantity'' = JUndefined \<longrightarrow> q = JNum (Finite 0))))
       \<and> (fst (scheduleNotification h t b dat secs w) = Inr nid \<longrightarrow>
           (\<exists>item rest p q.
              getNotificationHistory r (snd (scheduleNotification h t b dat secs w)) = Inr (item # rest)
              \<and> data item ''price'' = Some p \<and> p \<noteq> JUndefined
              \<and> data item ''quantity'' = Some q \<and> q \<noteq> JUndefined
              \<and> (property (data_or_empty dat) ''price'' = JUndefined \<longrightarrow> p = JNum (Finite 0))
              \<and> (property (data_or_empty dat) ''quantity'' = JUndefined \<longrightarrow> q = JNum (Finite 0))))"
proof (intro conjI impI)
  let ?d = "data_or_empty dat"
  obtain p where p: "JSON_value (js_or (property ?d ''price'') (JNum (Finite 0))) = Some p"
      "p \<noteq> JUndefined" "property ?d ''price'' = JUndefined \<longrightarrow> p = JNum (Finite 0)"
    using coerced by blast
  obtain q where q: "JSON_value (js_or (property ?d ''quantity'') (JNum (Finite 0))) = Some q"
      "q \<noteq> JUndefined" "property ?d ''quantity'' = JUndefined \<longrightarrow> q = JNum (Finite 0)"
    using coerced by blast
  {
    assume sent: "fst (sendLocalNotification h t b dat w) = Inr nid"
    let ?item = "JSON_item (make_item h (local_notification t b ?d nid))"
    have "data ?item ''price'' = Some p" "data ?item ''quantity'' = Some q"
      using p(1) q(1) by (simp_all add: local_item_data)
    with send_history [OF sent store read] p(2,3) q(2,3)
    show "\<exists>item rest p q.
              getNotificationHistory r (snd (sendLocalNotification h t b dat w)) = Inr (item # rest)
              \<and> data item ''price'' = Some p \<and> p \<noteq> JUndefined
              \<and> data item ''quantity'' = Some q \<and> q \<noteq> JUndefined
              \<and> (property ?d ''price'' = JUndefined \<longrightarrow> p = JNum (Finite 0))
              \<and> (property ?d ''quantity'' = JUndefined \<longrightarrow> q = JNum (Finite 0))"
      by blast
  }
  {
    assume sent: "fst (scheduleNotification h t b dat secs w) = Inr nid"
    let ?item = "JSON_item (make_item h (scheduled_notification t b ?d nid
                     (toISOString h (Date_now h + seconds_or_60 secs * 1000))))"
    have "data ?item ''price'' = Some p" "data ?item ''quantity'' = Some q"
      using p(1) q(1) by (simp_all add: scheduled_item_data)
    with schedule_history [OF sent store read] p(2,3) q(2,3)
    show "\<exists>item rest p q.
              getNotificationHistory r (snd (scheduleNotification h t b dat secs w)) = Inr (item # rest)
              \<and> data item ''price'' = Some p \<and> p \<noteq> JUndefined
              \<and> data item ''quantity'' = Some q \<and> q \<noteq> JUndefined
              \<and> (property ?d ''price'' = JUndefined \<longrightarrow> p = JNum (Finite 0))
              \<and> (property ?d ''quantity'' = JUndefined \<longrightarrow> q = JNum (Finite 0))"
      by blast
  }
qed

theorem price_quantity_present_witness:
  "fst (sendLocalNotification host_ok ''T'' ''B'' None world_empty) = Inr ''notification-1''
   \<and> fst (scheduleNotification host_ok ''T'' ''B'' None (Some 30) world_empty) = Inr ''notification-1''
   \<and> property (data_or_empty None) ''price'' = JUndefined
   \<and> property (data_or_empty None) ''quantity'' = JUndefined
   \<and> (\<exists>item rest.
         getNotificationHistory host_ok (snd (sendLocalNotification host_ok ''T'' ''B'' None world_empty))
           = Inr (item # rest)
         \<and> data item ''price'' = Some (JNum (Finite 0))
         \<and> data item ''quantity'' = Some (JNum (Finite 0)))
   \<and> (\<exists>item rest.
         getNotificationHistory host_ok
             (snd (scheduleNotification host_ok ''T'' ''B'' None (Some 30) world_empty))
           = Inr (item # rest)
         \<and> data item ''price'' = Some (JNum (Finite 0))
         \<and> data item ''quantity'' = Some (JNum (Finite 0)))"
proof -
  have u: "property (data_or_empty None) ''price'' = JUndefined"
    "property (data_or_empty None) ''quantity'' = JUndefined"
    by (simp_all add: data_or_empty_def property_def)
  note t = price_quantity_present [OF host_ok_facts(1,2) world_empty_facts(1) host_ok_facts(1),
      where t = "''T''" and b = "''B''" and dat = None and secs = "Some 30"
        and nid = "''notification-1''"]
  have "\<exists>item rest.
         getNotificationHistory host_ok (snd (sendLocalNotification host_ok ''T'' ''B'' None world_empty))
           = Inr (item # rest)
         \<and> data item ''price'' = Some (JNum (Finite 0))
         \<and> data item ''quantity'' = Some (JNum (Finite 0))"
    using t sample_send u by blast
  moreover have "\<exists>item rest.
         getNotificationHistory host_ok
             (snd (scheduleNotification host_ok ''T'' ''B'' None (Some 30) world_empty))
           = Inr (item # rest)
         \<and> data item ''price'' = Some (JNum (Finite 0))
         \<and> data item ''quantity'' = Some (JNum (Finite 0))"
    using t sample_schedule u by blast
  ultimately show ?thesis
    using sample_send sample_schedule u by blast
qed

text \<open>
  C7, as amended. When \<open>seconds\<close> is given, the trigger of the request is that many
  seconds and the item read back records the host's ISO rendering of the clock at the
  call plus that many seconds, a valid date, computed at the call; when \<open>seconds\<close> is
  omitted the same holds with 60. The item records it under the property name the
  source writes, \<open>shleduledAt\<close>, and has no property named \<open>scheduledAt\<close>. For a
  notification sent at once the trigger is \<^verbatim>\<open>null\<close> and that property is the empty
  string.
\<close>

theorem scheduled_time_recorded:
  assumes store: "getItem_fault h = None" "setItem_fault h = None"
      "storage w historyKey \<noteq> Some Unparseable"
    and read: "getItem_fault r = None"
  shows "(fst (scheduleNotification h t b dat (Some s) w) = Inr nid \<longrightarrow>
            \<bar>Date_now h + s * 1000\<bar> \<le> 8640000000000000
            \<and> fst (scheduleNotification h t b dat (Some s) w)
                = scheduleNotificationAsync h (scheduled_request t b (data_or_empty dat) s)
            \<and> trigger (last (requests (snd (scheduleNotification h t b dat (Some s) w)))) = Some s
            \<and> (\<exists>item rest.
                 getNotificationHistory r (snd (scheduleNotification h t b dat (Some s) w))
                   = Inr (item # rest)
                 \<and> id' item = nid
                 \<and> item_object item ''shleduledAt''
                      = Some (Text (toISOString h (Date_now h + s * 1000)))
                 \<and> item_object item ''scheduledAt'' = None))
       \<and> (fst (scheduleNotification h t b dat None w) = Inr nid \<longrightarrow>
            \<bar>Date_now h + 60 * 1000\<bar> \<le> 8640000000000000
            \<and> fst (scheduleNotification h t b dat None w)
                = scheduleNotificationAsync h (scheduled_request t b (data_or_empty dat) 60)
            \<and> trigger (last (requests (snd (scheduleNotification h t b dat None w)))) = Some 60
            \<and> (\<exists>item rest.
                 getNotificationHistory r (snd (scheduleNotification h t b dat None w))
                   = Inr (item # rest)
                 \<and> id' item = nid
                 \<and> item_object item ''shleduledAt''
                      = Some (Text (toISOString h (Date_now h + 60 * 1000)))
                 \<and> item_object item ''scheduledAt'' = None))
       \<and> (fst (sendLocalNotification h t b dat w) = Inr nid \<longrightarrow>
            trigger (last (requests (snd (sendLocalNotification h t b dat w)))) = None
            \<and> (\<exists>item rest.
                 getNotificationHistory r (snd (sendLocalNotification h t b dat w))
                   = Inr (item # rest)
                 \<and> id' item = nid
                 \<and> item_object item ''shleduledAt'' = Some (Text [])
                 \<and> item_object item ''scheduledAt'' = None))"
proof (intro conjI impI)
  assume sent: "fst (scheduleNotification h t b dat (Some s) w) = Inr nid"
  have s: "seconds_or_60 (Some s) = s" by (simp add: seconds_or_60_def)
  note given = schedule_given [OF sent store read s]
  show "\<bar>Date_now h + s * 1000\<bar> \<le> 8640000000000000"
    using given by (elim conjE)
  show "fst (scheduleNotification h t b dat (Some s) w)
                = scheduleNotificationAsync h (scheduled_request t b (data_or_empty dat) s)"
    using given by (elim conjE)
  show "trigger (last (requests (snd (scheduleNotification h t b dat (Some s) w)))) = Some s"
    using given by (elim conjE)
  show "\<exists>item rest.
                 getNotificationHistory r (snd (scheduleNotification h t b dat (Some s) w))
                   = Inr (item # rest)
                 \<and> id' item = nid
                 \<and> item_object item ''shleduledAt''
                      = Some (Text (toISOString h (Date_now h + s * 1000)))
                 \<and> item_object item ''scheduledAt'' = None"
    using given by (elim conjE)
next
  assume sent: "fst (scheduleNotification h t b dat None w) = Inr nid"
  have s: "seconds_or_60 None = 60" by (simp add: seconds_or_60_def)
  note given = schedule_given [OF sent store read s]
  show "\<bar>Date_now h + 60 * 1000\<bar> \<le> 8640000000000000"
    using given by (elim conjE)
  show "fst (scheduleNotification h t b dat None w)
                = scheduleNotificationAsync h (scheduled_request t b (data_or_empty dat) 60)"
    using given by (elim conjE)
  show "trigger (last (requests (snd (scheduleNotification h t b dat None w)))) = Some 60"
    using given by (elim conjE)
  show "\<exists>item rest.
                 getNotificationHistory r (snd (scheduleNotification h t b dat None w))
                   = Inr (item # rest)
                 \<and> id' item = nid
                 \<and> item_object item ''shleduledAt''
                      = Some (Text (toISOString h (Date_now h + 60 * 1000)))
                 \<and> item_object item ''scheduledAt'' = None"
    using given by (elim conjE)
next
  assume sent: "fst (sendLocalNotification h t b dat w) = Inr nid"
  show "trigger (last (requests (snd (sendLocalNotification h t b dat w)))) = None"
    by (simp add: send_requests [OF sent] local_request_def)
  show "\<exists>item rest.
                 getNotificationHistory r (snd (sendLocalNotification h t b dat w))
                   = Inr (item # rest)
                 \<and> id' item = nid
                 \<and> item_object item ''shleduledAt'' = Some (Text [])
                 \<and> item_object item ''scheduledAt'' = None"
    using send_history [OF sent store read]
    by (simp add: item_object_stamp) (simp add: JSON_item_def make_item_def local_notification_def)
qed


theorem scheduled_time_recorded_witness:
  "fst (scheduleNotification host_minute ''T'' ''B'' None None world_empty) = Inr ''notification-1''
   \<and> fst (scheduleNotification host_minute ''T'' ''B'' None (Some 30) world_empty) = Inr ''notification-1''
   \<and> fst (sendLocalNotification host_minute ''T'' ''B'' None world_empty) = Inr ''notification-1''
   \<and> trigger (last (requests (snd (scheduleNotification host_minute ''T'' ''B'' None None world_empty))))
       = Some 60
   \<and> trigger (last (requests
        (snd (scheduleNotification host_minute ''T'' ''B'' None (Some 30) world_empty))))
       = Some 30
   \<and> (\<exists>item rest.
         getNotificationHistory host_minute
             (snd (scheduleNotification host_minute ''T'' ''B'' None None world_empty))
           = Inr (item # rest)
         \<and> item_object item ''shleduledAt'' = Some (Text ''2023-11-14T22:14:20.000Z''))
   \<and> (\<exists>item rest.
         getNotificationHistory host_minute
             (snd (scheduleNotification host_minute ''T'' ''B'' None (Some 30) world_empty))
           = Inr (item # rest)
         \<and> item_object item ''shleduledAt'' = Some (Text ''2023-11-14T22:13:50.000Z''))
   \<and> (\<exists>item rest.
         getNotificationHistory host_minute
             (snd (sendLocalNotification host_minute ''T'' ''B'' None world_empty))
           = Inr (item # rest)
         \<and> item_object item ''shleduledAt'' = Some (Text []))"
proof -
  have omitted: "fst (scheduleNotification host_minute ''T'' ''B'' None None world_empty)
      = Inr ''notification-1''"
    by (rule schedule_accepted [OF _ host_minute_facts(3)])
      (simp add: host_minute_facts seconds_or_60_def)
  have given: "fst (scheduleNotification host_minute ''T'' ''B'' None (Some 30) world_empty)
      = Inr ''notification-1''"
    by (rule schedule_accepted [OF _ host_minute_facts(3)])
      (simp add: host_minute_facts seconds_or_60_def)
  have sent: "fst (sendLocalNotification host_minute ''T'' ''B'' None world_empty)
      = Inr ''notification-1''"
    by (rule send_accepted [OF host_minute_facts(3)])
  have s60: "toISOString host_minute (Date_now host_minute + 60 * 1000) = ''2023-11-14T22:14:20.000Z''"
    and s30: "toISOString host_minute (Date_now host_minute + 30 * 1000) = ''2023-11-14T22:13:50.000Z''"
    by (simp_all add: host_minute_def host_ok_def)
  note t = scheduled_time_recorded [OF host_minute_facts(1,2) world_empty_facts(1)
      host_minute_facts(1), where t = "''T''" and b = "''B''" and dat = None and s = 30
        and nid = "''notification-1''"]
  note a = t [THEN conjunct1, rule_format, OF given]
  note b = t [THEN conjunct2, THEN conjunct1, rule_format, OF omitted]
  note c = t [THEN conjunct2, THEN conjunct2, rule_format, OF sent]
  have 1: "trigger (last (requests (snd (scheduleNotification host_minute ''T'' ''B'' None None world_empty))))
       = Some 60"
    using b by (elim conjE)
  have 2: "trigger (last (requests
        (snd (scheduleNotification host_minute ''T'' ''B'' None (Some 30) world_empty))))
       = Some 30"
    using a by (elim conjE)
  have 3: "\<exists>item rest.
         getNotificationHistory host_minute
             (snd (scheduleNotification host_minute ''T'' ''B'' None None world_empty))
           = Inr (item # rest)
         \<and> item_object item ''shleduledAt'' = Some (Text ''2023-11-14T22:14:20.000Z'')"
    using b unfolding s60 by (elim conjE exE) (intro exI conjI, assumption+)
  have 4: "\<exists>item rest.
         getNotificationHistory host_minute
             (snd (scheduleNotification host_minute ''T'' ''B'' None (Some 30) world_empty))
           = Inr (item # rest)
         \<and> item_object item ''shleduledAt'' = Some (Text ''2023-11-14T22:13:50.000Z'')"
    using a unfolding s30 by (elim conjE exE) (intro exI conjI, assumption+)
  have 5: "\<exists>item rest.
         getNotificationHistory host_minute
             (snd (sendLocalNotification host_minute ''T'' ''B'' None world_empty))
           = Inr (item # rest)
         \<and> item_object item ''shleduledAt'' = Some (Text [])"
    using c by (elim conjE exE) (intro exI conjI, assumption+)
  show ?thesis
    by (intro conjI) (rule omitted given sent 1 2 3 4 5)+
qed

text \<open>
  C7 as first stated names the attribute \<open>scheduledAt\<close>: the item persisted for a
  notification scheduled 30 seconds ahead has no such property, and holds the time
  under \<open>shleduledAt\<close>.
\<close>

theorem scheduled_time_recorded_counterexample:
  "getNotificationHistory host_ok
       (snd (scheduleNotification host_ok ''T'' ''B'' None (Some 30) world_empty))
     = Inr [JSON_item (make_item host_ok
              (scheduled_notification ''T'' ''B'' (data_or_empty None) ''notification-1''
                 ''2023-11-14T22:13:50.000Z''))]
   \<and> item_object (JSON_item (make_item host_ok
              (scheduled_notification ''T'' ''B'' (data_or_empty None) ''notification-1''
                 ''2023-11-14T22:13:50.000Z''))) ''scheduledAt'' = None
   \<and> item_object (JSON_item (make_item host_ok
              (scheduled_notification ''T'' ''B'' (data_or_empty None) ''notification-1''
                 ''2023-11-14T22:13:50.000Z''))) ''shleduledAt''
       = Some (Text ''2023-11-14T22:13:50.000Z'')"
proof -
  have s: "toISOString host_ok (Date_now host_ok + seconds_or_60 (Some 30) * 1000)
      = ''2023-11-14T22:13:50.000Z''"
    by (simp add: host_ok_def seconds_or_60_def)
  have "getNotificationHistory host_ok
       (snd (scheduleNotification host_ok ''T'' ''B'' None (Some 30) world_empty))
     = Inr [JSON_item (make_item host_ok
              (scheduled_notification ''T'' ''B'' (data_or_empty None) ''notification-1''
                 ''2023-11-14T22:13:50.000Z''))]"
    using schedule_history [OF sample_schedule host_ok_facts(1,2) world_empty_facts(1)
        host_ok_facts(1), of "''T''" "''B''" None]
    by (simp add: s world_empty_facts(2))
  then show ?thesis
    by (simp add: item_object_stamp)
qed


text \<open>
  C5. Body templates. Each event notification asks the host for a request whose body
  is the fixed text of its kind around the values of the detail record, and that is the
  body of the request the host accepts: the booking title; the payment amount by
  \<^verbatim>\<open>toFixed(2)\<close>; the quantity, the coffee name, \<open>is\<close> when the quantity is 1 and
  \<open>are\<close> otherwise, and the total by \<^verbatim>\<open>toFixed(2)\<close>; the multiplier \<open>(Nx)\<close> exactly
  when the quantity is greater than 1; the offer with both prices by \<^verbatim>\<open>toFixed(2)\<close>.
  For a finite number below \<open>10^21\<close> in magnitude that rendering is an optional sign,
  the decimal digits of the integer part, a point and exactly two decimal digits, of
  the number rounded to hundredths; a safe integer is rendered by its decimal digits.
\<close>

theorem body_templates:
  "(\<exists>r. fst (sendBookingConfirmationNotification h bk w) = scheduleNotificationAsync h r
         \<and> title (content r) = title_booking
         \<and> body (content r) =
          ''Your '' @ bk @ '' are wait you'')
   \<and> (\<exists>r. fst (sendPaymentConfirmationNotification h pd w) = scheduleNotificationAsync h r
         \<and> title (content r) = title_payment
         \<and> body (content r) =
          ''Your payment of $'' @ toFixed h 2 (amount pd) @ '' has been processed successfully!'')
   \<and> (\<exists>r. fst (sendOrderConfirmationNotification h od w) = scheduleNotificationAsync h r
         \<and> title (content r) = title_order
         \<and> body (content r) =
          ''Your order of '' @ ToString h (quantity od) @ '' '' @ coffeeName od @ '' ''
           @ (if quantity od = Finite 1 then ''is'' else ''are'')
           @ '' confirmed. Total: $'' @ toFixed h 2 (totalPrice od))
   \<and> (\<exists>r. fst (sendOrderReadyNotification h od w) = scheduleNotificationAsync h r
         \<and> title (content r) = title_ready
         \<and> body (content r) =
          ''Your '' @ coffeeName od @ '' ''
           @ (if greater_than (quantity od) 1 then ''('' @ ToString h (quantity od) @ ''x)'' else [])
           @ '' is ready for pickup!'')
   \<and> (\<exists>r. fst (sendSpecialOfferNotification h ot cn dp op w) = scheduleNotificationAsync h r
         \<and> title (content r) = title_offer
         \<and> body (content r) =
          ot @ '': Get '' @ cn @ '' for $'' @ toFixed h 2 dp
           @ '' (was $'' @ toFixed h 2 op @ '')'')
   \<and> (\<forall>nid. fst (sendBookingConfirmationNotification h bk w) = Inr nid \<longrightarrow>
         body (content (last (requests (snd (sendBookingConfirmationNotification h bk w))))) =
          ''Your '' @ bk @ '' are wait you'')
   \<and> (\<forall>nid. fst (sendPaymentConfirmationNotification h pd w) = Inr nid \<longrightarrow>
         body (content (last (requests (snd (sendPaymentConfirmationNotification h pd w))))) =
          ''Your payment of $'' @ toFixed h 2 (amount pd) @ '' has been processed successfully!'')
   \<and> (\<forall>nid. fst (sendOrderConfirmationNotification h od w) = Inr nid \<longrightarrow>
         body (content (last (requests (snd (sendOrderConfirmationNotification h od w))))) =
          ''Your order of '' @ ToString h (quantity od) @ '' '' @ coffeeName od @ '' ''
           @ (if quantity od = Finite 1 then ''is'' else ''are'')
           @ '' confirmed. Total: $'' @ toFixed h 2 (totalPrice od))
   \<and> (\<forall>nid. fst (sendOrderReadyNotification h od w) = Inr nid \<longrightarrow>
         body (content (last (requests (snd (sendOrderReadyNotification h od w))))) =
          ''Your '' @ coffeeName od @ '' ''
           @ (if greater_than (quantity od) 1 then ''('' @ ToString h (quantity od) @ ''x)'' else [])
           @ '' is ready for pickup!'')
   \<and> (\<forall>nid. fst (sendSpecialOfferNotification h ot cn dp op w) = Inr nid \<longrightarrow>
         body (content (last (requests (snd (sendSpecialOfferNotification h ot cn dp op w))))) =
          ot @ '': Get '' @ cn @ '' for $'' @ toFixed h 2 dp
           @ '' (was $'' @ toFixed h 2 op @ '')'')
   \<and> (\<forall>r. \<bar>r\<bar> < 10 ^ 21 \<longrightarrow>
         toFixed h 2 (Finite r) =
           (if r < 0 then ''-'' else []) @ digits (nat \<lfloor>\<bar>r\<bar> * 100 + 1 / 2\<rfloor> div 100) @ ''.''
             @ [digit_char (nat \<lfloor>\<bar>r\<bar> * 100 + 1 / 2\<rfloor> div 10 mod 10),
                digit_char (nat \<lfloor>\<bar>r\<bar> * 100 + 1 / 2\<rfloor> mod 10)]
         \<and> set (digits (nat \<lfloor>\<bar>r\<bar> * 100 + 1 / 2\<rfloor> div 100)) \<subseteq> set ''0123456789''
         \<and> digit_char (nat \<lfloor>\<bar>r\<bar> * 100 + 1 / 2\<rfloor> div 10 mod 10) \<in> set ''0123456789''
         \<and> digit_char (nat \<lfloor>\<bar>r\<bar> * 100 + 1 / 2\<rfloor> mod 10) \<in> set ''0123456789'')
   \<and> (\<forall>q. \<bar>q\<bar> < 2 ^ 53 \<longrightarrow>
         ToString h (Finite (of_int q)) = (if q < 0 then ''-'' else []) @ digits (nat \<bar>q\<bar>))"
proof -
  obtain d_booking where booking: "sendBookingConfirmationNotification h bk w
     = sendLocalNotification h title_booking
         (''Your '' @ bk @ '' are wait you'') (Some d_booking) w"
    using booking_call by blast
  obtain d_payment where payment: "sendPaymentConfirmationNotification h pd w
     = sendLocalNotification h title_payment
         (''Your payment of $'' @ toFixed h 2 (amount pd) @ '' has been processed successfully!'') (Some d_payment) w"
    using payment_call by blast
  obtain d_order where order: "sendOrderConfirmationNotification h od w
     = sendLocalNotification h title_order
         (''Your order of '' @ ToString h (quantity od) @ '' '' @ coffeeName od @ '' ''
           @ (if quantity od = Finite 1 then ''is'' else ''are'')
           @ '' confirmed. Total: $'' @ toFixed h 2 (totalPrice od)) (Some d_order) w"
    using order_call by blast
  obtain d_ready where ready: "sendOrderReadyNotification h od w
     = sendLocalNotification h title_ready
         (''Your '' @ coffeeName od @ '' ''
           @ (if greater_than (quantity od) 1 then ''('' @ ToString h (quantity od) @ ''x)'' else [])
           @ '' is ready for pickup!'') (Some d_ready) w"
    using ready_call by blast
  obtain d_offer where offer: "sendSpecialOfferNotification h ot cn dp op w
     = sendLocalNotification h title_offer
         (ot @ '': Get '' @ cn @ '' for $'' @ toFixed h 2 dp
           @ '' (was $'' @ toFixed h 2 op @ '')'') (Some d_offer) w"
    using offer_call by blast
  have fixed: "\<forall>r. \<bar>r\<bar> < 10 ^ 21 \<longrightarrow>
         toFixed h 2 (Finite r) =
           (if r < 0 then ''-'' else []) @ digits (nat \<lfloor>\<bar>r\<bar> * 100 + 1 / 2\<rfloor> div 100) @ ''.''
             @ [digit_char (nat \<lfloor>\<bar>r\<bar> * 100 + 1 / 2\<rfloor> div 10 mod 10),
                digit_char (nat \<lfloor>\<bar>r\<bar> * 100 + 1 / 2\<rfloor> mod 10)]
         \<and> set (digits (nat \<lfloor>\<bar>r\<bar> * 100 + 1 / 2\<rfloor> div 100)) \<subseteq> set ''0123456789''
         \<and> digit_char (nat \<lfloor>\<bar>r\<bar> * 100 + 1 / 2\<rfloor> div 10 mod 10) \<in> set ''0123456789''
         \<and> digit_char (nat \<lfloor>\<bar>r\<bar> * 100 + 1 / 2\<rfloor> mod 10) \<in> set ''0123456789''"
  proof (intro allI impI conjI)
    fix r :: rat
    assume "\<bar>r\<bar> < 10 ^ 21"
    then show "toFixed h 2 (Finite r) =
           (if r < 0 then ''-'' else []) @ digits (nat \<lfloor>\<bar>r\<bar> * 100 + 1 / 2\<rfloor> div 100) @ ''.''
             @ [digit_char (nat \<lfloor>\<bar>r\<bar> * 100 + 1 / 2\<rfloor> div 10 mod 10),
                digit_char (nat \<lfloor>\<bar>r\<bar> * 100 + 1 / 2\<rfloor> mod 10)]"
      by (rule toFixed_two)
    show "set (digits (nat \<lfloor>\<bar>r\<bar> * 100 + 1 / 2\<rfloor> div 100)) \<subseteq> set ''0123456789''"
      by (rule digits_decimal)
    show "digit_char (nat \<lfloor>\<bar>r\<bar> * 100 + 1 / 2\<rfloor> div 10 mod 10) \<in> set ''0123456789''"
      by (rule digit_char_decimal) simp
    show "digit_char (nat \<lfloor>\<bar>r\<bar> * 100 + 1 / 2\<rfloor> mod 10) \<in> set ''0123456789''"
      by (rule digit_char_decimal) simp
  qed
  have whole: "\<forall>q. \<bar>q\<bar> < 2 ^ 53 \<longrightarrow>
         ToString h (Finite (of_int q)) = (if q < 0 then ''-'' else []) @ digits (nat \<bar>q\<bar>)"
    using ToString_safe_integer by blast
  show ?thesis
    by (intro conjI)
      (rule via_send(1) [OF booking] via_send(1) [OF payment] via_send(1) [OF order]
         via_send(1) [OF ready] via_send(1) [OF offer]
         via_send(2) [OF booking] via_send(2) [OF payment] via_send(2) [OF order]
         via_send(2) [OF ready] via_send(2) [OF offer] fixed whole)+
qed


theorem body_templates_witness:
  "fst (sendBookingConfirmationNotification host_ok ''BMW X5'' world_empty) = Inr ''notification-1''
   \<and> fst (sendPaymentConfirmationNotification host_ok sample_payment world_empty) = Inr ''notification-1''
   \<and> fst (sendOrderConfirmationNotification host_ok order_two world_empty) = Inr ''notification-1''
   \<and> fst (sendOrderConfirmationNotification host_ok order_latte world_empty) = Inr ''notification-1''
   \<and> fst (sendOrderReadyNotification host_ok order_two world_empty) = Inr ''notification-1''
   \<and> fst (sendOrderReadyNotification host_ok order_latte world_empty) = Inr ''notification-1''
   \<and> fst (sendSpecialOfferNotification host_ok ''Deal'' ''Latte'' (Finite 3) (Finite (9 / 2)) world_empty) = Inr ''notification-1''
   \<and> body (content (last (requests (snd (sendBookingConfirmationNotification host_ok ''BMW X5'' world_empty)))))
       = ''Your BMW X5 are wait you''
   \<and> body (content (last (requests (snd (sendPaymentConfirmationNotification host_ok sample_payment world_empty)))))
       = ''Your payment of $12.50 has been processed successfully!''
   \<and> body (content (last (requests (snd (sendOrderConfirmationNotification host_ok order_two world_empty)))))
       = ''Your order of 2 Latte are confirmed. Total: $12.50''
   \<and> body (content (last (requests (snd (sendOrderConfirmationNotification host_ok order_latte world_empty)))))
       = ''Your order of 1 Latte is confirmed. Total: $4.50''
   \<and> body (content (last (requests (snd (sendOrderReadyNotification host_ok order_two world_empty)))))
       = ''Your Latte (2x) is ready for pickup!''
   \<and> body (content (last (requests (snd (sendOrderReadyNotification host_ok order_latte world_empty)))))
       = ''Your Latte  is ready for pickup!''
   \<and> body (content (last (requests (snd (sendSpecialOfferNotification host_ok ''Deal'' ''Latte'' (Finite 3) (Finite (9 / 2)) world_empty)))))
       = ''Deal: Get Latte for $3.00 (was $4.50)''"
proof -
  note acc = send_accepted [OF host_ok_facts(4)]
  have sb: "fst (sendBookingConfirmationNotification host_ok ''BMW X5'' world_empty) = Inr ''notification-1''"
    by (simp add: sendBookingConfirmationNotification_def Let_def acc)
  have sp: "fst (sendPaymentConfirmationNotification host_ok sample_payment world_empty) = Inr ''notification-1''"
    by (simp add: sendPaymentConfirmationNotification_def Let_def acc)
  have so2: "fst (sendOrderConfirmationNotification host_ok order_two world_empty) = Inr ''notification-1''"
    and so1: "fst (sendOrderConfirmationNotification host_ok order_latte world_empty) = Inr ''notification-1''"
    by (simp_all add: sendOrderConfirmationNotification_def Let_def acc)
  have sr2: "fst (sendOrderReadyNotification host_ok order_two world_empty) = Inr ''notification-1''"
    and sr1: "fst (sendOrderReadyNotification host_ok order_latte world_empty) = Inr ''notification-1''"
    by (simp_all add: sendOrderReadyNotification_def Let_def acc)
  have sf: "fst (sendSpecialOfferNotification host_ok ''Deal'' ''Latte'' (Finite 3) (Finite (9 / 2)) world_empty) = Inr ''notification-1''"
    by (simp add: sendSpecialOfferNotification_def Let_def acc)
  note two = body_templates [where h = host_ok and w = world_empty and bk = "''BMW X5''"
      and pd = sample_payment and od = order_two and ot = "''Deal''" and cn = "''Latte''"
      and dp = "Finite 3" and op = "Finite (9 / 2)"]
  note one = body_templates [where h = host_ok and w = world_empty and od = order_latte]
  note fixed = two [THEN conjunct2, THEN conjunct2, THEN conjunct2, THEN conjunct2, THEN conjunct2, THEN conjunct2, THEN conjunct2, THEN conjunct2, THEN conjunct2, THEN conjunct2, THEN conjunct1, rule_format]
  note whole = two [THEN conjunct2, THEN conjunct2, THEN conjunct2, THEN conjunct2, THEN conjunct2, THEN conjunct2, THEN conjunct2, THEN conjunct2, THEN conjunct2, THEN conjunct2, THEN conjunct2, rule_format]
  have d: "digits 12 = ''12''" "digits 4 = ''4''" "digits 3 = ''3''" "digits 2 = ''2''"
    "digits (Suc 0) = ''1''" "digit_char 5 = CHR ''5''"
    by code_simp+
  have f25: "toFixed host_ok 2 (Finite (25 / 2)) = ''12.50''"
    using fixed [of "25 / 2", THEN conjunct1] by (simp add: floor_rat_numeral_divide d)
  have f45: "toFixed host_ok 2 (Finite (9 / 2)) = ''4.50''"
    using fixed [of "9 / 2", THEN conjunct1] by (simp add: floor_rat_numeral_divide d)
  have f3: "toFixed host_ok 2 (Finite 3) = ''3.00''"
    using fixed [of 3, THEN conjunct1] by (simp add: floor_rat_numeral_divide d)
  have q2: "ToString host_ok (Finite 2) = ''2''"
    using whole [of 2] by (simp add: d)
  have q1: "ToString host_ok (Finite 1) = ''1''"
    using whole [of 1] by (simp add: d)
  have pa: "toFixed host_ok 2 (amount sample_payment) = ''12.50''"
    using f25 by (simp add: sample_payment_def)
  have t2: "toFixed host_ok 2 (totalPrice order_two) = ''12.50''"
    and n2: "ToString host_ok (quantity order_two) = ''2''"
    using f25 q2 by (simp_all add: order_two_def)
  have t1: "toFixed host_ok 2 (totalPrice order_latte) = ''4.50''"
    and n1: "ToString host_ok (quantity order_latte) = ''1''"
    using f45 q1 by (simp_all add: order_latte_def)
  have 1: "body (content (last (requests (snd (sendBookingConfirmationNotification host_ok ''BMW X5'' world_empty)))))
       = ''Your BMW X5 are wait you''"
    using two [THEN conjunct2, THEN conjunct2, THEN conjunct2, THEN conjunct2, THEN conjunct2, THEN conjunct1, rule_format, OF sb] by simp
  have 2: "body (content (last (requests (snd (sendPaymentConfirmationNotification host_ok sample_payment world_empty)))))
       = ''Your payment of $12.50 has been processed successfully!''"
    using two [THEN conjunct2, THEN conjunct2, THEN conjunct2, THEN conjunct2, THEN conjunct2, THEN conjunct2, THEN conjunct1, rule_format, OF sp] unfolding pa by simp
  have 3: "body (content (last (requests (snd (sendOrderConfirmationNotification host_ok order_two world_empty)))))
       = ''Your order of 2 Latte are confirmed. Total: $12.50''"
    using two [THEN conjunct2, THEN conjunct2, THEN conjunct2, THEN conjunct2, THEN conjunct2, THEN conjunct2, THEN conjunct2, THEN conjunct1, rule_format, OF so2] unfolding t2 n2 by (simp add: order_two_def)
  have 4: "body (content (last (requests (snd (sendOrderConfirmationNotification host_ok order_latte world_empty)))))
       = ''Your order of 1 Latte is confirmed. Total: $4.50''"
    using one [THEN conjunct2, THEN conjunct2, THEN conjunct2, THEN conjunct2, THEN conjunct2, THEN conjunct2, THEN conjunct2, THEN conjunct1, rule_format, OF so1] unfolding t1 n1 by (simp add: order_latte_def)
  have 5: "body (content (last (requests (snd (sendOrderReadyNotification host_ok order_two world_empty)))))
       = ''Your Latte (2x) is ready for pickup!''"
    using two [THEN conjunct2, THEN conjunct2, THEN conjunct2, THEN conjunct2, THEN conjunct2, THEN conjunct2, THEN conjunct2, THEN conjunct2, THEN conjunct1, rule_format, OF sr2] unfolding n2 by (simp add: order_two_def)
  have 6: "body (content (last (requests (snd (sendOrderReadyNotification host_ok order_latte world_empty)))))
       = ''Your Latte  is ready for pickup!''"
    using one [THEN conjunct2, THEN conjunct2, THEN conjunct2, THEN conjunct2, THEN conjunct2, THEN conjunct2, THEN conjunct2, THEN conjunct2, THEN conjunct1, rule_format, OF sr1] unfolding n1 by (simp add: order_latte_def)
  have 7: "body (content (last (requests (snd (sendSpecialOfferNotification host_ok ''Deal'' ''Latte'' (Finite 3) (Finite (9 / 2)) world_empty)))))
       = ''Deal: Get Latte for $3.00 (was $4.50)''"
    using two [THEN conjunct2, THEN conjunct2, THEN conjunct2, THEN conjunct2, THEN conjunct2, THEN conjunct2, THEN conjunct2, THEN conjunct2, THEN conjunct2, THEN conjunct1, rule_format, OF sf] unfolding f3 f45 by simp
  show ?thesis
    by (intro conjI) (rule sb sp so2 so1 sr2 sr1 sf 1 2 3 4 5 6 7)+
qed


text \<open>
  C10, as amended. A scheduled notification carries, in the request accepted by the
  host and in the item persisted, a \<open>data\<close> object with exactly the properties
  \<open>title\<close>, \<open>body\<close>, \<open>price\<close> and \<open>quantity\<close>: every other property of the \<open>data\<close>
  argument is dropped. A notification sent at once drops none: every property
  supplied is a property of the request's \<open>data\<close> and, unless its value is
  \<^verbatim>\<open>undefined\<close>, of the persisted item's. The values of the properties other than
  those four are unchanged in the request, and as JSON carries them in the persisted
  item (so unchanged for every value JSON can carry). The four are set by the function:
  \<open>title\<close> and \<open>body\<close> to the title and body of the notification, whatever the
  argument supplied under those names, and \<open>price\<close> and \<open>quantity\<close> to the supplied
  value when it is truthy and to 0 otherwise.
\<close>

theorem scheduled_data_fields:
  "(fst (scheduleNotification h t b dat secs w) = Inr nid \<longrightarrow>
      dom (data (content (last (requests (snd (scheduleNotification h t b dat secs w))))))
        = {''title'', ''body'', ''price'', ''quantity''}
      \<and> (getItem_fault h = None \<and> setItem_fault h = None
           \<and> storage w historyKey \<noteq> Some Unparseable \<and> getItem_fault r = None \<longrightarrow>
          (\<exists>item rest.
             getNotificationHistory r (snd (scheduleNotification h t b dat secs w)) = Inr (item # rest)
             \<and> dom (data item) = {''title'', ''body'', ''price'', ''quantity''})))
   \<and> (fst (sendLocalNotification h t b dat w) = Inr nid \<longrightarrow>
      dom (data_or_empty dat)
        \<subseteq> dom (data (content (last (requests (snd (sendLocalNotification h t b dat w))))))
      \<and> (\<forall>k. k \<notin> {''title'', ''body'', ''price'', ''quantity''} \<longrightarrow>
         data (content (last (requests (snd (sendLocalNotification h t b dat w))))) k
           = data_or_empty dat k)
      \<and> (getItem_fault h = None \<and> setItem_fault h = None
           \<and> storage w historyKey \<noteq> Some Unparseable \<and> getItem_fault r = None \<longrightarrow>
          (\<exists>item rest.
             getNotificationHistory r (snd (sendLocalNotification h t b dat w)) = Inr (item # rest)
             \<and> (\<forall>k. k \<notin> {''title'', ''body'', ''price'', ''quantity''} \<longrightarrow>
                   data item k = JSON_object (data_or_empty dat) k)
             \<and> (\<forall>k v. k \<notin> {''title'', ''body'', ''price'', ''quantity''}
                      \<and> data_or_empty dat k = Some v \<and> JSON_value v = Some v \<longrightarrow>
                   data item k = Some v)
             \<and> (\<forall>k v. data_or_empty dat k = Some v \<and> v \<noteq> JUndefined \<longrightarrow>
                   data item k \<noteq> None))))
   \<and> (fst (sendLocalNotification h t b dat w) = Inr nid \<longrightarrow>
      data (content (last (requests (snd (sendLocalNotification h t b dat w))))) ''title''
        = Some (JStr t)
      \<and> data (content (last (requests (snd (sendLocalNotification h t b dat w))))) ''body''
        = Some (JStr b)
      \<and> data (content (last (requests (snd (sendLocalNotification h t b dat w))))) ''price''
        = Some (js_or (property (data_or_empty dat) ''price'') (JNum (Finite 0)))
      \<and> data (content (last (requests (snd (sendLocalNotification h t b dat w))))) ''quantity''
        = Some (js_or (property (data_or_empty dat) ''quantity'') (JNum (Finite 0)))
      \<and> (getItem_fault h = None \<and> setItem_fault h = None
           \<and> storage w historyKey \<noteq> Some Unparseable \<and> getItem_fault r = None \<longrightarrow>
          (\<exists>item rest.
             getNotificationHistory r (snd (sendLocalNotification h t b dat w)) = Inr (item # rest)
             \<and> data item ''title'' = Some (JStr t)
             \<and> data item ''body'' = Some (JStr b)
             \<and> data item ''price''
                 = JSON_value (js_or (property (data_or_empty dat) ''price'') (JNum (Finite 0)))
             \<and> data item ''quantity''
                 = JSON_value (js_or (property (data_or_empty dat) ''quantity'') (JNum (Finite 0))))))"
proof (intro conjI impI)
  assume sent: "fst (scheduleNotification h t b dat secs w) = Inr nid"
  show "dom (data (content (last (requests (snd (scheduleNotification h t b dat secs w))))))
        = {''title'', ''body'', ''price'', ''quantity''}"
    using sent by (rule schedule_request_fields)
  assume "getItem_fault h = None \<and> setItem_fault h = None
           \<and> storage w historyKey \<noteq> Some Unparseable \<and> getItem_fault r = None"
  with sent show "\<exists>item rest.
             getNotificationHistory r (snd (scheduleNotification h t b dat secs w)) = Inr (item # rest)
             \<and> dom (data item) = {''title'', ''body'', ''price'', ''quantity''}"
    by (rule schedule_item_fields)
next
  assume sent: "fst (sendLocalNotification h t b dat w) = Inr nid"
  show "dom (data_or_empty dat)
        \<subseteq> dom (data (content (last (requests (snd (sendLocalNotification h t b dat w))))))"
    using sent by (rule send_request_keys)
  show "\<forall>k. k \<notin> {''title'', ''body'', ''price'', ''quantity''} \<longrightarrow>
         data (content (last (requests (snd (sendLocalNotification h t b dat w))))) k
           = data_or_empty dat k"
    using sent by (rule send_request_fields)
  assume "getItem_fault h = None \<and> setItem_fault h = None
           \<and> storage w historyKey \<noteq> Some Unparseable \<and> getItem_fault r = None"
  with sent show "\<exists>item rest.
             getNotificationHistory r (snd (sendLocalNotification h t b dat w)) = Inr (item # rest)
             \<and> (\<forall>k. k \<notin> {''title'', ''body'', ''price'', ''quantity''} \<longrightarrow>
                   data item k = JSON_object (data_or_empty dat) k)
             \<and> (\<forall>k v. k \<notin> {''title'', ''body'', ''price'', ''quantity''}
                      \<and> data_or_empty dat k = Some v \<and> JSON_value v = Some v \<longrightarrow>
                   data item k = Some v)
             \<and> (\<forall>k v. data_or_empty dat k = Some v \<and> v \<noteq> JUndefined \<longrightarrow>
                   data item k \<noteq> None)"
    by (rule send_item_fields)
next
  assume sent: "fst (sendLocalNotification h t b dat w) = Inr nid"
  note req = send_requests [OF sent]
  show "data (content (last (requests (snd (sendLocalNotification h t b dat w))))) ''title''
        = Some (JStr t)"
    unfolding req last_snoc by (simp add: local_request_def local_data_def)
  show "data (content (last (requests (snd (sendLocalNotification h t b dat w))))) ''body''
        = Some (JStr b)"
    unfolding req last_snoc by (simp add: local_request_def local_data_def)
  show "data (content (last (requests (snd (sendLocalNotification h t b dat w))))) ''price''
        = Some (js_or (property (data_or_empty dat) ''price'') (JNum (Finite 0)))"
    unfolding req last_snoc by (simp add: local_request_def local_data_def)
  show "data (content (last (requests (snd (sendLocalNotification h t b dat w))))) ''quantity''
        = Some (js_or (property (data_or_empty dat) ''quantity'') (JNum (Finite 0)))"
    unfolding req last_snoc by (simp add: local_request_def local_data_def)
  assume "getItem_fault h = None \<and> setItem_fault h = None
           \<and> storage w historyKey \<noteq> Some Unparseable \<and> getItem_fault r = None"
  then have ok: "getItem_fault h = None" "setItem_fault h = None"
    "storage w historyKey \<noteq> Some Unparseable" "getItem_fault r = None" by simp_all
  note hist = send_history [OF sent ok]
  show "\<exists>item rest.
             getNotificationHistory r (snd (sendLocalNotification h t b dat w)) = Inr (item # rest)
             \<and> data item ''title'' = Some (JStr t)
             \<and> data item ''body'' = Some (JStr b)
             \<and> data item ''price''
                 = JSON_value (js_or (property (data_or_empty dat) ''price'') (JNum (Finite 0)))
             \<and> data item ''quantity''
                 = JSON_value (js_or (property (data_or_empty dat) ''quantity'') (JNum (Finite 0)))"
    by (intro exI conjI, rule hist) (simp_all add: local_item_data)
qed


theorem scheduled_data_fields_witness:
  "fst (scheduleNotification host_ok ''T'' ''B'' (Some sample_data) (Some 30) world_empty)
     = Inr ''notification-1''
   \<and> fst (sendLocalNotification host_ok ''T'' ''B'' (Some sample_data) world_empty)
     = Inr ''notification-1''
   \<and> data_or_empty (Some sample_data) ''type'' = Some (JStr ''promo'')
   \<and> data (content (last (requests
        (snd (scheduleNotification host_ok ''T'' ''B'' (Some sample_data) (Some 30) world_empty)))))
        ''type'' = None
   \<and> data (content (last (requests
        (snd (sendLocalNotification host_ok ''T'' ''B'' (Some sample_data) world_empty)))))
        ''type'' = Some (JStr ''promo'')
   \<and> (\<exists>item rest.
         getNotificationHistory host_ok
           (snd (scheduleNotification host_ok ''T'' ''B'' (Some sample_data) (Some 30) world_empty))
           = Inr (item # rest)
         \<and> data item ''type'' = None)
   \<and> (\<exists>item rest.
         getNotificationHistory host_ok
           (snd (sendLocalNotification host_ok ''T'' ''B'' (Some sample_data) world_empty))
           = Inr (item # rest)
         \<and> data item ''type'' = Some (JStr ''promo''))
   \<and> data (content (last (requests
        (snd (sendLocalNotification host_ok ''T'' ''B'' (Some sample_data) world_empty)))))
        ''title'' = Some (JStr ''T'')"
proof -
  note t = scheduled_data_fields [where h = host_ok and r = host_ok and w = world_empty
      and t = "''T''" and b = "''B''" and dat = "Some sample_data" and secs = "Some 30"
      and nid = "''notification-1''"]
  note sch = t [THEN conjunct1, rule_format, OF sample_schedule]
  note snt = t [THEN conjunct2, THEN conjunct1, rule_format, OF sample_send]
  note own = t [THEN conjunct2, THEN conjunct2, rule_format, OF sample_send]
  have ok: "getItem_fault host_ok = None \<and> setItem_fault host_ok = None
           \<and> storage world_empty historyKey \<noteq> Some Unparseable \<and> getItem_fault host_ok = None"
    using host_ok_facts world_empty_facts by simp
  have ty: "data_or_empty (Some sample_data) ''type'' = Some (JStr ''promo'')"
    by (simp add: data_or_empty_def sample_data_def)
  have js: "JSON_value (JStr ''promo'') = Some (JStr ''promo'')"
    by simp
  have out: "''type'' \<notin> {''title'', ''body'', ''price'', ''quantity''}"
    by simp
  have absent: "m ''type'' = None" if "dom m = {''title'', ''body'', ''price'', ''quantity''}" for m :: obj
  proof -
    have "''type'' \<notin> dom m" unfolding that by (rule out)
    then show ?thesis by (simp only: domIff simp_thms)
  qed
  have 1: "data (content (last (requests
        (snd (scheduleNotification host_ok ''T'' ''B'' (Some sample_data) (Some 30) world_empty)))))
        ''type'' = None"
    by (rule absent) (rule sch [THEN conjunct1])
  have 2: "data (content (last (requests
        (snd (sendLocalNotification host_ok ''T'' ''B'' (Some sample_data) world_empty)))))
        ''type'' = Some (JStr ''promo'')"
    unfolding snt [THEN conjunct2, THEN conjunct1, rule_format, OF out] by (rule ty)
  obtain item rest where a:
    "getNotificationHistory host_ok
           (snd (scheduleNotification host_ok ''T'' ''B'' (Some sample_data) (Some 30) world_empty))
           = Inr (item # rest)"
    "dom (data item) = {''title'', ''body'', ''price'', ''quantity''}"
    using sch [THEN conjunct2, rule_format, OF ok] by (elim exE conjE)
  have 3: "\<exists>item rest.
         getNotificationHistory host_ok
           (snd (scheduleNotification host_ok ''T'' ''B'' (Some sample_data) (Some 30) world_empty))
           = Inr (item # rest)
         \<and> data item ''type'' = None"
    by (intro exI conjI) (rule a(1), rule absent [OF a(2)])
  obtain item' rest' where b:
    "getNotificationHistory host_ok
           (snd (sendLocalNotification host_ok ''T'' ''B'' (Some sample_data) world_empty))
           = Inr (item' # rest')"
    "\<forall>k v. k \<notin> {''title'', ''body'', ''price'', ''quantity''}
                      \<and> data_or_empty (Some sample_data) k = Some v \<and> JSON_value v = Some v \<longrightarrow>
                   data item' k = Some v"
    using snt [THEN conjunct2, THEN conjunct2, rule_format, OF ok] by (elim exE conjE)
  have 4: "\<exists>item rest.
         getNotificationHistory host_ok
           (snd (sendLocalNotification host_ok ''T'' ''B'' (Some sample_data) world_empty))
           = Inr (item # rest)
         \<and> data item ''type'' = Some (JStr ''promo'')"
    by (intro exI conjI) (rule b(1), rule b(2) [rule_format], intro conjI out ty js)
  have 5: "data (content (last (requests
        (snd (sendLocalNotification host_ok ''T'' ''B'' (Some sample_data) world_empty)))))
        ''title'' = Some (JStr ''T'')"
    using own by (elim conjE)
  show ?thesis
    by (intro conjI) (rule sample_schedule sample_send ty 1 2 3 4 5)+
qed


text \<open>
  C10 as first stated has the immediate primitive preserve every supplied property:
  the booking notification supplies the booking's own title under \<open>title\<close>, and both
  the accepted request and the persisted item carry the notification title there
  instead.
\<close>

theorem scheduled_data_fields_counterexample:
  "sendBookingConfirmationNotification host_ok ''BMW X5'' world_empty
     = sendLocalNotification host_ok title_booking ''Your BMW X5 are wait you''
         (Some [''type'' \<mapsto> JStr ''booking_confirmed'', ''title'' \<mapsto> JStr ''BMW X5''])
         world_empty
   \<and> data_or_empty (Some [''type'' \<mapsto> JStr ''booking_confirmed'', ''title'' \<mapsto> JStr ''BMW X5''])
         ''title'' = Some (JStr ''BMW X5'')
   \<and> title_booking \<noteq> ''BMW X5''
   \<and> data (content (last (requests
         (snd (sendBookingConfirmationNotification host_ok ''BMW X5'' world_empty))))) ''title''
       = Some (JStr title_booking)
   \<and> getNotificationHistory host_ok
         (snd (sendBookingConfirmationNotification host_ok ''BMW X5'' world_empty))
       = Inr [JSON_item (make_item host_ok
                (local_notification title_booking ''Your BMW X5 are wait you''
                   (data_or_empty
                      (Some [''type'' \<mapsto> JStr ''booking_confirmed'', ''title'' \<mapsto> JStr ''BMW X5'']))
                   ''notification-1''))]
   \<and> data (JSON_item (make_item host_ok
                (local_notification title_booking ''Your BMW X5 are wait you''
                   (data_or_empty
                      (Some [''type'' \<mapsto> JStr ''booking_confirmed'', ''title'' \<mapsto> JStr ''BMW X5'']))
                   ''notification-1''))) ''title''
       = Some (JStr title_booking)"
proof -
  let ?dat = "[''type'' \<mapsto> JStr ''booking_confirmed'', ''title'' \<mapsto> JStr ''BMW X5'']"
  let ?body = "''Your BMW X5 are wait you''"
  have call: "sendBookingConfirmationNotification host_ok ''BMW X5'' world_empty
     = sendLocalNotification host_ok title_booking ?body (Some ?dat) world_empty"
    by (simp add: sendBookingConfirmationNotification_def Let_def)
  have supplied: "data_or_empty (Some ?dat) ''title'' = Some (JStr ''BMW X5'')"
    by (simp add: data_or_empty_def)
  have differ: "title_booking \<noteq> ''BMW X5''"
    by (simp add: title_booking_def)
  have sent: "fst (sendLocalNotification host_ok title_booking ?body (Some ?dat) world_empty)
      = Inr ''notification-1''"
    by (rule sample_send)
  have req: "data (content (last (requests
         (snd (sendLocalNotification host_ok title_booking ?body (Some ?dat) world_empty))))) ''title''
       = Some (JStr title_booking)"
    unfolding send_requests [OF sent] last_snoc by (simp add: local_request_def local_data_def)
  have hist: "getNotificationHistory host_ok
         (snd (sendLocalNotification host_ok title_booking ?body (Some ?dat) world_empty))
       = Inr [JSON_item (make_item host_ok
                (local_notification title_booking ?body (data_or_empty (Some ?dat))
                   ''notification-1''))]"
    using send_history [OF sent host_ok_facts(1,2) world_empty_facts(1) host_ok_facts(1)]
    by (simp add: world_empty_facts(2))
  have item: "data (JSON_item (make_item host_ok
                (local_notification title_booking ?body (data_or_empty (Some ?dat))
                   ''notification-1''))) ''title''
       = Some (JStr title_booking)"
    by (simp add: local_item_data)
  show ?thesis
    unfolding call by (intro conjI) (rule refl supplied differ req hist item)+
qed




end
